theory Spec2Isabelle
  imports Complex_Main
begin

section \<open>Python and NumPy primitives used by \<^verbatim>\<open>dsrl.py\<close>\<close>

text \<open>
  Exceptions are values. Tensor and float arithmetic is carried out on \<^typ>\<open>real\<close>:
  rounding, overflow to infinity and NaN of IEEE floats are outside this embedding.
\<close>

datatype py_error =
    TypeError | IndexError | ValueError | AssertionError
  | ZeroDivisionError | UnboundLocalError | RuntimeError | AttributeError

text \<open>\<^verbatim>\<open>int(a / b)\<close>: true division, then truncation towards zero.\<close>

definition py_int_truediv :: "int \<Rightarrow> int \<Rightarrow> py_error + int" where
  "py_int_truediv a b =
     (if b = 0 then Inl ZeroDivisionError
      else Inr (sgn a * sgn b * (\<bar>a\<bar> div \<bar>b\<bar>)))"

text \<open>
  \<^verbatim>\<open>np.linspace(start, stop, num, dtype=int)\<close> for integer end points:
  \<^verbatim>\<open>num\<close> samples \<^verbatim>\<open>start + i * step\<close> with \<^verbatim>\<open>step = (stop - start) / (num - 1)\<close>,
  the last one set to \<^verbatim>\<open>stop\<close>, rounded towards minus infinity for an integer dtype
  (NumPy 1.20 and later). A single sample is \<^verbatim>\<open>start\<close>; a negative \<^verbatim>\<open>num\<close>
  raises \<^verbatim>\<open>ValueError\<close>.
\<close>

definition np_linspace_int :: "int \<Rightarrow> int \<Rightarrow> int \<Rightarrow> py_error + int list" where
  "np_linspace_int start stop num =
     (if num < 0 then Inl ValueError
      else if num = 1 then Inr [start]
      else Inr (map (\<lambda>i. if int i = num - 1 then stop
                          else \<lfloor>real_of_int start
                                 + real i * (real_of_int (stop - start) / real_of_int (num - 1))\<rfloor>)
                    [0..<nat num]))"

text \<open>\<^verbatim>\<open>x in arr\<close> for a NumPy integer array.\<close>

definition np_in :: "int \<Rightarrow> int list \<Rightarrow> bool" where
  "np_in x arr = (x \<in> set arr)"

section \<open>Selection of the actor-update steps (\<^verbatim>\<open>DSRL.train\<close>, lines 236--239)\<close>

definition actor_gradient_idx :: "int \<Rightarrow> int \<Rightarrow> py_error + int list" where
  "actor_gradient_idx gradient_steps actor_gradient_steps =
     (if actor_gradient_steps < 0
      then np_linspace_int 0 (gradient_steps - 1) gradient_steps
      else (case py_int_truediv gradient_steps actor_gradient_steps of
              Inl e \<Rightarrow> Inl e
            | Inr q \<Rightarrow> np_linspace_int (q - 1) (gradient_steps - 1) actor_gradient_steps))"

text \<open>\<^verbatim>\<open>range(n)\<close> as the list of its values.\<close>

definition py_range :: "int \<Rightarrow> int list" where
  "py_range n = map int [0..<nat n]"

text \<open>The steps of \<^verbatim>\<open>for gradient_step in range(gradient_steps)\<close> at which the test
  \<^verbatim>\<open>gradient_step in actor_gradient_idx\<close> (line 304) succeeds.\<close>

definition actor_update_steps :: "int \<Rightarrow> int list \<Rightarrow> int list" where
  "actor_update_steps G idx = filter (\<lambda>g. np_in g idx) (py_range G)"



section \<open>Tensors\<close>

text \<open>
  A two-dimensional tensor is the list of its rows, with the autograd flag
  \<^verbatim>\<open>requires_grad\<close>. Every operation takes the grad mode: inside
  \<^verbatim>\<open>with th.no_grad():\<close> the mode is \<open>False\<close> and no result requires a gradient.
  A zero-dimensional result (\<^verbatim>\<open>.mean()\<close>, a loss) is the \<open>1 \<times> 1\<close> tensor.
\<close>

type_synonym mat = "real list list"
type_synonym tensor3 = "real list list list"

record tensor =
  vals :: mat
  requires_grad :: bool

definition as_tensor :: "bool \<Rightarrow> mat \<Rightarrow> tensor" where
  "as_tensor rg m = \<lparr>vals = m, requires_grad = rg\<rparr>"

fun collect :: "(py_error + 'a) list \<Rightarrow> py_error + 'a list" where
  "collect [] = Inr []"
| "collect (Inl e # rs) = Inl e"
| "collect (Inr x # rs) = (case collect rs of Inl e \<Rightarrow> Inl e | Inr xs \<Rightarrow> Inr (x # xs))"

text \<open>Broadcasting along one dimension: equal sizes, or one of them is 1.\<close>

definition bcast_list ::
  "('a \<Rightarrow> 'b \<Rightarrow> py_error + 'c) \<Rightarrow> 'a list \<Rightarrow> 'b list \<Rightarrow> py_error + 'c list" where
  "bcast_list f xs ys =
     (if length xs = length ys then collect (map (\<lambda>(x, y). f x y) (zip xs ys))
      else if length xs = 1 then collect (map (f (hd xs)) ys)
      else if length ys = 1 then collect (map (\<lambda>x. f x (hd ys)) xs)
      else Inl RuntimeError)"

definition bcast2 :: "(real \<Rightarrow> real \<Rightarrow> real) \<Rightarrow> mat \<Rightarrow> mat \<Rightarrow> py_error + mat" where
  "bcast2 f = bcast_list (bcast_list (\<lambda>x y. Inr (f x y)))"

text \<open>An elementwise binary operator on two tensors, and one with a Python scalar.\<close>

definition th_binop ::
  "bool \<Rightarrow> (real \<Rightarrow> real \<Rightarrow> real) \<Rightarrow> tensor \<Rightarrow> tensor \<Rightarrow> py_error + tensor" where
  "th_binop grad f a b =
     (case bcast2 f (vals a) (vals b) of
        Inl e \<Rightarrow> Inl e
      | Inr m \<Rightarrow> Inr \<lparr>vals = m, requires_grad = (grad \<and> (requires_grad a \<or> requires_grad b))\<rparr>)"

definition th_scalar :: "bool \<Rightarrow> (real \<Rightarrow> real) \<Rightarrow> tensor \<Rightarrow> tensor" where
  "th_scalar grad f a = \<lparr>vals = map (map f) (vals a), requires_grad = (grad \<and> requires_grad a)\<rparr>"

text \<open>\<^verbatim>\<open>x.reshape(-1, 1)\<close> of a one-dimensional tensor.\<close>

definition reshape_col :: "real list \<Rightarrow> mat" where
  "reshape_col xs = map (\<lambda>x. [x]) xs"

text \<open>\<^verbatim>\<open>th.cat(ts, dim=1)\<close> of two-dimensional tensors: the row counts must agree.\<close>

definition th_cat_dim1 :: "mat list \<Rightarrow> py_error + mat" where
  "th_cat_dim1 ts =
     (case ts of
        [] \<Rightarrow> Inl RuntimeError
      | t # rest \<Rightarrow>
          if list_all (\<lambda>u. length u = length t) rest
          then Inr (map (\<lambda>b. concat (map (\<lambda>u. u ! b) ts)) [0..<length t])
          else Inl RuntimeError)"

text \<open>\<^verbatim>\<open>th.min(x, dim=1, keepdim=True)\<close> (the values) and \<^verbatim>\<open>th.mean(x, dim=1, keepdim=True)\<close>.
  The minimum over an empty dimension raises; the mean of one is NaN in PyTorch and
  \<open>0\<close> here.\<close>

definition th_min_dim1 :: "mat \<Rightarrow> py_error + mat" where
  "th_min_dim1 m =
     (if list_ex (\<lambda>r. r = []) m then Inl IndexError
      else Inr (map (\<lambda>r. [Min (set r)]) m))"

definition th_mean_dim1 :: "mat \<Rightarrow> mat" where
  "th_mean_dim1 m = map (\<lambda>r. [sum_list r / real (length r)]) m"

text \<open>\<^verbatim>\<open>x.mean()\<close> over all elements, \<^verbatim>\<open>np.mean\<close> of a list, and \<^verbatim>\<open>x.item()\<close>.\<close>

definition np_mean :: "real list \<Rightarrow> real" where
  "np_mean xs = sum_list xs / real (length xs)"

definition th_mean :: "bool \<Rightarrow> tensor \<Rightarrow> tensor" where
  "th_mean grad a =
     \<lparr>vals = [[np_mean (concat (vals a))]], requires_grad = (grad \<and> requires_grad a)\<rparr>"

definition item :: "tensor \<Rightarrow> py_error + real" where
  "item a = (case concat (vals a) of [x] \<Rightarrow> Inr x | _ \<Rightarrow> Inl RuntimeError)"

text \<open>\<^verbatim>\<open>F.mse_loss(input, target)\<close>: the operands are broadcast against each other, then
  the squared differences are averaged over all elements.\<close>

definition mse_loss :: "bool \<Rightarrow> tensor \<Rightarrow> tensor \<Rightarrow> py_error + tensor" where
  "mse_loss grad inp tgt =
     (case th_binop grad (\<lambda>x y. (x - y)\<^sup>2) inp tgt of
        Inl e \<Rightarrow> Inl e
      | Inr sq \<Rightarrow> Inr (th_mean grad sq))"

text \<open>Python's \<^verbatim>\<open>sum(...)\<close> over tensors: \<^verbatim>\<open>0 + t1 + t2 + ...\<close>. Over no tensor at all
  the result is the integer \<open>0\<close>, which is not a tensor (\<open>None\<close> here).\<close>

fun py_sum_from :: "bool \<Rightarrow> tensor \<Rightarrow> tensor list \<Rightarrow> py_error + tensor" where
  "py_sum_from grad acc [] = Inr acc"
| "py_sum_from grad acc (t # ts) =
     (case th_binop grad (+) acc t of
        Inl e \<Rightarrow> Inl e
      | Inr acc' \<Rightarrow> py_sum_from grad acc' ts)"

definition py_sum :: "bool \<Rightarrow> tensor list \<Rightarrow> py_error + tensor option" where
  "py_sum grad ts =
     (case ts of
        [] \<Rightarrow> Inr None
      | t # rest \<Rightarrow>
          (case py_sum_from grad (th_scalar grad (\<lambda>x. 0 + x) t) rest of
             Inl e \<Rightarrow> Inl e
           | Inr s \<Rightarrow> Inr (Some s)))"

text \<open>\<^verbatim>\<open>x.reshape(-1, c, d)\<close> of a two-dimensional tensor and \<^verbatim>\<open>x.reshape(-1, n)\<close> of a
  three-dimensional one: the number of elements must be a multiple of the given
  dimensions' product, which must not be zero; a negative dimension other than the
  \<open>-1\<close> is refused.\<close>

function chunks :: "nat \<Rightarrow> 'a list \<Rightarrow> 'a list list" where
  "chunks n xs = (if n = 0 \<or> xs = [] then [] else take n xs # chunks n (drop n xs))"
  by pat_completeness auto
termination
  by (relation "measure (\<lambda>(n, xs). length xs)") auto

definition reshape_3d :: "mat \<Rightarrow> int \<Rightarrow> int \<Rightarrow> py_error + tensor3" where
  "reshape_3d m c d =
     (let flat = concat m in
      if c < 0 \<or> d < 0 \<or> c * d = 0 then Inl RuntimeError
      else if int (length flat) mod (c * d) \<noteq> 0 then Inl RuntimeError
      else Inr (chunks (nat c) (chunks (nat d) flat)))"

definition reshape_2d :: "tensor3 \<Rightarrow> int \<Rightarrow> py_error + mat" where
  "reshape_2d t n =
     (let flat = concat (concat t) in
      if n \<le> 0 then Inl RuntimeError
      else if int (length flat) mod n \<noteq> 0 then Inl RuntimeError
      else Inr (chunks (nat n) flat))"

section \<open>Python values and strings\<close>

text \<open>An argument typed \<^verbatim>\<open>Union[str, float]\<close>.\<close>

datatype pyval = PStr string | PFloat real

definition startswith :: "string \<Rightarrow> string \<Rightarrow> bool" where
  "startswith s p = (take (length p) s = p)"

text \<open>\<^verbatim>\<open>s.split(c)\<close> for a separator of one character.\<close>

fun str_split :: "char \<Rightarrow> string \<Rightarrow> string list" where
  "str_split c [] = [[]]"
| "str_split c (x # xs) =
     (if x = c then [] # str_split c xs
      else (case str_split c xs of
              [] \<Rightarrow> [[x]]
            | p # ps \<Rightarrow> (x # p) # ps))"

text \<open>\<^verbatim>\<open>xs[i]\<close> for \<open>i \<ge> 0\<close>.\<close>

definition py_index :: "'a list \<Rightarrow> nat \<Rightarrow> py_error + 'a" where
  "py_index xs i = (if i < length xs then Inr (xs ! i) else Inl IndexError)"

text \<open>
  \<^verbatim>\<open>float(v)\<close>. On a string, Python's parser is a parameter \<open>fs\<close>: \<open>fs s = None\<close> when
  \<^verbatim>\<open>float(s)\<close> raises \<^verbatim>\<open>ValueError\<close>, and \<open>Some x\<close> when it returns the (finite) \<open>x\<close>.
\<close>

definition py_float :: "(string \<Rightarrow> real option) \<Rightarrow> pyval \<Rightarrow> py_error + real" where
  "py_float fs v =
     (case v of
        PFloat x \<Rightarrow> Inr x
      | PStr s \<Rightarrow> (case fs s of None \<Rightarrow> Inl ValueError | Some x \<Rightarrow> Inr x))"

text \<open>
  An instance of that parameter for concrete inputs: \<^verbatim>\<open>float\<close> on plain decimal literals,
  that is an optional sign, digits in which single underscores may separate digits
  (PEP 515), and an optional fraction. Exponents, \<^verbatim>\<open>inf\<close>, \<^verbatim>\<open>nan\<close> and surrounding
  white space are not covered (\<open>None\<close>), so it is used at concrete literals only.
\<close>

definition digit_val :: "char \<Rightarrow> nat option" where
  "digit_val c =
     (let n = (of_char c :: nat) in if 48 \<le> n \<and> n \<le> 57 then Some (n - 48) else None)"

fun digitpart :: "string \<Rightarrow> nat \<Rightarrow> nat \<Rightarrow> bool \<Rightarrow> (nat \<times> nat) option" where
  "digitpart [] v k prev_digit = (if prev_digit then Some (v, k) else None)"
| "digitpart (c # cs) v k prev_digit =
     (if c = CHR ''_'' then (if prev_digit \<and> cs \<noteq> [] then digitpart cs v k False else None)
      else (case digit_val c of
              None \<Rightarrow> None
            | Some d \<Rightarrow> digitpart cs (10 * v + d) (Suc k) True))"

definition float_decimal :: "string \<Rightarrow> real option" where
  "float_decimal s =
     (let (sg, body) =
            (case s of
               [] \<Rightarrow> (1, s)
             | c # r \<Rightarrow> if c = CHR ''-'' then (- 1, r) else if c = CHR ''+'' then (1, r) else (1, s));
          ip = takeWhile (\<lambda>c. c \<noteq> CHR ''.'') body;
          rest = dropWhile (\<lambda>c. c \<noteq> CHR ''.'') body
      in (case rest of
            [] \<Rightarrow> map_option (\<lambda>(v, k). sg * real v) (digitpart ip 0 0 False)
          | dot # fp \<Rightarrow>
              if ip = [] then map_option (\<lambda>(w, k). sg * (real w / 10 ^ k)) (digitpart fp 0 0 False)
              else if fp = [] then map_option (\<lambda>(v, k). sg * real v) (digitpart ip 0 0 False)
              else (case (digitpart ip 0 0 False, digitpart fp 0 0 False) of
                      (Some (v, _), Some (w, k)) \<Rightarrow> Some (sg * (real v + real w / 10 ^ k))
                    | _ \<Rightarrow> None)))"

section \<open>The object and its collaborators\<close>

text \<open>
  A critic ensemble (\<^verbatim>\<open>ContinuousCritic\<close>): its parameter tensors, the entries of its
  state whose name contains \<^verbatim>\<open>running_\<close> (\<^verbatim>\<open>get_parameters_by_name\<close>, line 176; the lists
  \<^verbatim>\<open>batch_norm_stats\<close> and \<^verbatim>\<open>batch_norm_stats_target\<close> alias these tensors), its
  optimizer and its training mode. Each tensor is the list of its elements.
\<close>

record 'opt critic_net =
  parameters :: "real list list"
  running_stats :: "real list list"
  optimizer :: 'opt
  training_mode :: bool

text \<open>A batch of the replay buffer (\<^verbatim>\<open>ReplayBufferSamples\<close>).\<close>

record 'obs replay_data =
  observations :: 'obs
  actions :: tensor
  next_observations :: 'obs
  dones :: tensor
  rewards :: tensor

text \<open>The arguments of \<^verbatim>\<open>DSRL.__init__\<close> that \<^verbatim>\<open>dsrl.py\<close> itself reads.\<close>

record 'obs dsrl_args =
  arg_tau :: real
  arg_gamma :: real
  arg_ent_coef :: pyval
  arg_target_update_interval :: int
  arg_target_entropy :: pyval
  arg_use_sde :: bool
  arg_use_sde_at_warmup :: bool
  arg_init_setup_model :: bool
  arg_actor_gradient_steps :: int
  arg_diffusion_policy :: "('obs \<Rightarrow> tensor3 \<Rightarrow> tensor3) option"
  arg_diffusion_act_dim :: "int list option"
  arg_noise_critic_grad_steps :: int
  arg_critic_backup_combine_type :: string

text \<open>The defaults of the signature (lines 99--124).\<close>

definition default_args :: "'obs dsrl_args" where
  "default_args =
     \<lparr>arg_tau = 0.005, arg_gamma = 0.99, arg_ent_coef = PStr ''auto'',
      arg_target_update_interval = 1, arg_target_entropy = PStr ''auto'',
      arg_use_sde = False, arg_use_sde_at_warmup = False, arg_init_setup_model = True,
      arg_actor_gradient_steps = - 1, arg_diffusion_policy = None,
      arg_diffusion_act_dim = None, arg_noise_critic_grad_steps = 1,
      arg_critic_backup_combine_type = ''min''\<rparr>"

text \<open>The attributes set by \<^verbatim>\<open>__init__\<close> (lines 126--167).\<close>

record ('obs, 'opt) dsrl_fields =
  tau :: real
  gamma :: real
  use_sde :: bool
  use_sde_at_warmup :: bool
  num_timesteps :: int
  n_updates :: int
  target_entropy :: pyval
  log_ent_coef :: "real option"
  ent_coef :: pyval
  target_update_interval :: int
  ent_coef_optimizer :: "'opt option"
  actor_gradient_steps :: int
  diffusion_policy :: "('obs \<Rightarrow> tensor3 \<Rightarrow> tensor3) option"
  diffusion_act_chunk :: int
  diffusion_act_dim :: int
  noise_critic_grad_steps :: int
  critic_backup_combine_type :: string

text \<open>
  The events whose order the ghost field \<open>trace\<close> records: the optimizer steps of the
  entropy coefficient, the critic, the actor and the noise critic, and the target
  synchronisation, each with the index of its loop iteration.
\<close>

datatype event =
    EntCoefStep int | CriticStep int | ActorStep int | TargetSync int | NoiseCriticStep int

text \<open>The object once \<^verbatim>\<open>_setup_model\<close> has run (lines 172--219). \<open>rng\<close> is the state of
  the random generators, \<open>logger\<close> the records of \<^verbatim>\<open>self.logger.record\<close>.\<close>

record ('obs, 'actor, 'opt, 'rng) dsrl = "('obs, 'opt) dsrl_fields" +
  actor :: 'actor
  critic :: "'opt critic_net"
  critic_target :: "'opt critic_net"
  critic_noise :: "'opt critic_net"
  ent_coef_tensor :: "real option"
  last_obs :: "'obs option"
  rng :: 'rng
  logger :: "(string \<times> real) list"
  trace :: "event list"

datatype ('f, 'm) constructed = Unbuilt 'f | Built 'm

text \<open>
  What \<^verbatim>\<open>dsrl.py\<close> calls and does not define: the base class, the policy networks, the
  optimizers, the replay buffer, the action space and Python's \<^verbatim>\<open>float\<close>.
\<close>

record ('obs, 'actor, 'opt, 'rng) externals =
  super_init :: "'obs dsrl_args \<Rightarrow> py_error option"
  super_setup_model :: "'rng \<Rightarrow> py_error + (('actor \<times> 'opt critic_net \<times> 'opt critic_net) \<times> 'rng)"
  policy_class :: "'rng \<Rightarrow> py_error + ('opt critic_net \<times> 'rng)"
  seed_rng :: 'rng
  new_adam :: 'opt
  float_of_str :: "string \<Rightarrow> real option"
  action_space_shape :: "nat list"
  action_space_is_box :: bool
  action_space_sample :: "'rng \<Rightarrow> real list \<times> 'rng"
  predict :: "'actor \<Rightarrow> 'obs \<Rightarrow> 'rng \<Rightarrow> mat \<times> 'rng"
  scale_action :: "mat \<Rightarrow> mat"
  unscale_action :: "mat \<Rightarrow> mat"
  replay_buffer_sample :: "int \<Rightarrow> 'rng \<Rightarrow> 'obs replay_data \<times> 'rng"
  action_log_prob :: "'actor \<Rightarrow> 'obs \<Rightarrow> 'rng \<Rightarrow> (mat \<times> real list) \<times> 'rng"
  reset_noise :: "'actor \<Rightarrow> 'rng \<Rightarrow> 'actor \<times> 'rng"
  critic_forward :: "'opt critic_net \<Rightarrow> 'obs \<Rightarrow> mat \<Rightarrow> mat list"
  th_randn :: "nat \<Rightarrow> nat \<Rightarrow> nat \<Rightarrow> 'rng \<Rightarrow> tensor3 \<times> 'rng"
  policy_set_training_mode ::
    "bool \<Rightarrow> 'actor \<times> 'opt critic_net \<times> 'opt critic_net \<Rightarrow> 'actor \<times> 'opt critic_net \<times> 'opt critic_net"
  actor_update_learning_rate :: "'actor \<Rightarrow> 'actor"
  update_learning_rate :: "'opt \<Rightarrow> 'opt"
  ent_coef_optimizer_step :: "'opt \<Rightarrow> real \<Rightarrow> tensor \<Rightarrow> real \<times> 'opt"
  critic_optimizer_step :: "'opt critic_net \<Rightarrow> 'obs replay_data \<Rightarrow> tensor \<Rightarrow> 'opt critic_net"
  actor_optimizer_step :: "'actor \<Rightarrow> 'opt critic_net \<Rightarrow> 'obs \<Rightarrow> real \<Rightarrow> 'actor"
  noise_critic_optimizer_step :: "'opt critic_net \<Rightarrow> 'obs \<Rightarrow> mat \<Rightarrow> tensor list \<Rightarrow> 'opt critic_net"

section \<open>Construction and setup (\<^verbatim>\<open>DSRL.__init__\<close>, \<^verbatim>\<open>DSRL._setup_model\<close>)\<close>

text \<open>Lines 126--167: the base class's constructor, then the attributes.
  \<^verbatim>\<open>diffusion_act_dim[0]\<close> raises \<^verbatim>\<open>TypeError\<close> on \<^verbatim>\<open>None\<close>.\<close>

definition init_fields ::
  "('obs, 'actor, 'opt, 'rng) externals \<Rightarrow> 'obs dsrl_args \<Rightarrow> py_error + ('obs, 'opt) dsrl_fields" where
  "init_fields E a =
     (case super_init E a of
        Some e \<Rightarrow> Inl e
      | None \<Rightarrow>
          (case arg_diffusion_act_dim a of
             None \<Rightarrow> Inl TypeError
           | Some dims \<Rightarrow>
               (case py_index dims 0 of
                  Inl e \<Rightarrow> Inl e
                | Inr chunk \<Rightarrow>
                    (case py_index dims 1 of
                       Inl e \<Rightarrow> Inl e
                     | Inr adim \<Rightarrow>
                         Inr \<lparr>tau = arg_tau a, gamma = arg_gamma a, use_sde = arg_use_sde a,
                              use_sde_at_warmup = arg_use_sde_at_warmup a,
                              num_timesteps = 0, n_updates = 0,
                              target_entropy = arg_target_entropy a,
                              log_ent_coef = None,
                              ent_coef = arg_ent_coef a,
                              target_update_interval = arg_target_update_interval a,
                              ent_coef_optimizer = None,
                              actor_gradient_steps = arg_actor_gradient_steps a,
                              diffusion_policy = arg_diffusion_policy a,
                              diffusion_act_chunk = chunk,
                              diffusion_act_dim = adim,
                              noise_critic_grad_steps = arg_noise_critic_grad_steps a,
                              critic_backup_combine_type = arg_critic_backup_combine_type a\<rparr>))))"

text \<open>Lines 179--185: the target entropy.\<close>

definition setup_target_entropy ::
  "('obs, 'actor, 'opt, 'rng) externals \<Rightarrow> pyval \<Rightarrow> py_error + real" where
  "setup_target_entropy E te =
     (if te = PStr ''auto'' then Inr (- real (prod_list (action_space_shape E)))
      else py_float (float_of_str E) te)"

text \<open>Lines 190--205: the entropy coefficient. The result is
  \<^verbatim>\<open>(log_ent_coef, ent_coef_optimizer, ent_coef_tensor)\<close>.\<close>

definition setup_ent_coef ::
  "('obs, 'actor, 'opt, 'rng) externals \<Rightarrow> pyval \<Rightarrow> py_error + (real option \<times> 'opt option \<times> real option)" where
  "setup_ent_coef E ec =
     (case ec of
        PFloat x \<Rightarrow> Inr (None, None, Some x)
      | PStr s \<Rightarrow>
          if startswith s ''auto''
          then (case (if CHR ''_'' \<in> set s
                      then (case py_index (str_split CHR ''_'' s) 1 of
                              Inl e \<Rightarrow> Inl e
                            | Inr x \<Rightarrow>
                                (case py_float (float_of_str E) (PStr x) of
                                   Inl e \<Rightarrow> Inl e
                                 | Inr init_value \<Rightarrow>
                                     if init_value > 0 then Inr init_value else Inl AssertionError))
                      else Inr 1) of
                  Inl e \<Rightarrow> Inl e
                | Inr init_value \<Rightarrow> Inr (Some (ln (1 * init_value)), Some (new_adam E), None))
          else (case py_float (float_of_str E) (PStr s) of
                  Inl e \<Rightarrow> Inl e
                | Inr x \<Rightarrow> Inr (None, None, Some x)))"

definition setup_model ::
  "('obs, 'actor, 'opt, 'rng) externals \<Rightarrow> ('obs, 'opt) dsrl_fields
     \<Rightarrow> py_error + ('obs, 'actor, 'opt, 'rng) dsrl" where
  "setup_model E self =
     (case super_setup_model E (seed_rng E) of
        Inl e \<Rightarrow> Inl e
      | Inr ((a, c, ct), r1) \<Rightarrow>
          (case setup_target_entropy E (target_entropy self) of
             Inl e \<Rightarrow> Inl e
           | Inr te \<Rightarrow>
               (case setup_ent_coef E (ent_coef self) of
                  Inl e \<Rightarrow> Inl e
                | Inr (lec, opt, ect) \<Rightarrow>
                    (case policy_class E r1 of
                       Inl e \<Rightarrow> Inl e
                     | Inr (cn, r2) \<Rightarrow>
                         Inr (dsrl_fields.extend
                                (self\<lparr>target_entropy := PFloat te, log_ent_coef := lec,
                                       ent_coef_optimizer := opt\<rparr>)
                                (dsrl.fields a c ct cn ect None r2 [] []))))))"

text \<open>Lines 126--170.\<close>

definition DSRL_init ::
  "('obs, 'actor, 'opt, 'rng) externals \<Rightarrow> 'obs dsrl_args
     \<Rightarrow> py_error + (('obs, 'opt) dsrl_fields, ('obs, 'actor, 'opt, 'rng) dsrl) constructed" where
  "DSRL_init E a =
     (case init_fields E a of
        Inl e \<Rightarrow> Inl e
      | Inr self \<Rightarrow>
          if arg_init_setup_model a
          then (case setup_model E self of Inl e \<Rightarrow> Inl e | Inr m \<Rightarrow> Inr (Built m))
          else Inr (Unbuilt self))"

section \<open>The losses of one gradient step (\<^verbatim>\<open>DSRL.train\<close>)\<close>

text \<open>
  Lines 253--262. The coefficient used by the step and, when it is learned, its loss
  \<^verbatim>\<open>-(log_ent_coef * (log_prob + target_entropy).detach()).mean()\<close>.
\<close>

definition entropy_coefficient ::
  "('obs, 'actor, 'opt, 'rng) dsrl \<Rightarrow> tensor \<Rightarrow> py_error + (real \<times> tensor option)" where
  "entropy_coefficient self log_prob =
     (case (ent_coef_optimizer self, log_ent_coef self) of
        (Some opt, Some l) \<Rightarrow>
          (case target_entropy self of
             PStr s \<Rightarrow> Inl TypeError
           | PFloat te \<Rightarrow>
               (case th_binop True (*) (as_tensor True [[l]])
                        (th_scalar False (\<lambda>x. x + te) log_prob) of
                  Inl e \<Rightarrow> Inl e
                | Inr p \<Rightarrow> Inr (exp l, Some (th_scalar True uminus (th_mean True p)))))
      | _ \<Rightarrow>
          (case ent_coef_tensor self of
             None \<Rightarrow> Inl AttributeError
           | Some c \<Rightarrow> Inr (c, None)))"

text \<open>
  Lines 280--288, inside \<^verbatim>\<open>with th.no_grad():\<close>. \<open>target_qs\<close> are the outputs of the
  target critics on the decoded next action. A combine type other than \<^verbatim>\<open>'min'\<close> and
  \<^verbatim>\<open>'mean'\<close> takes neither branch and leaves the concatenation as it is.
\<close>

definition td_target ::
  "string \<Rightarrow> real \<Rightarrow> real \<Rightarrow> mat list \<Rightarrow> real list \<Rightarrow> tensor \<Rightarrow> tensor \<Rightarrow> py_error + tensor" where
  "td_target combine gam ent_coef_v target_qs next_log_prob rews dns =
     (case th_cat_dim1 target_qs of
        Inl e \<Rightarrow> Inl e
      | Inr cat \<Rightarrow>
          (case (if combine = ''min'' then th_min_dim1 cat
                 else if combine = ''mean'' then Inr (th_mean_dim1 cat)
                 else Inr cat) of
             Inl e \<Rightarrow> Inl e
           | Inr next_q_values \<Rightarrow>
               (case th_binop False (-) (as_tensor False next_q_values)
                        (th_scalar False (\<lambda>x. ent_coef_v * x)
                           (as_tensor False (reshape_col next_log_prob))) of
                  Inl e \<Rightarrow> Inl e
                | Inr next_q_values' \<Rightarrow>
                    (case th_binop False (*)
                             (th_scalar False (\<lambda>x. x * gam) (th_scalar False (\<lambda>d. 1 - d) dns))
                             next_q_values' of
                       Inl e \<Rightarrow> Inl e
                     | Inr y \<Rightarrow> th_binop False (+) rews y))))"

text \<open>Lines 295--296. Without any critic, \<^verbatim>\<open>sum\<close> is the integer \<open>0\<close> and the
  assertion fails.\<close>

definition critic_loss :: "tensor list \<Rightarrow> tensor \<Rightarrow> py_error + tensor" where
  "critic_loss current_q_values target_q_values =
     (case collect (map (\<lambda>current_q. mse_loss True current_q target_q_values) current_q_values) of
        Inl e \<Rightarrow> Inl e
      | Inr ls \<Rightarrow>
          (case py_sum True ls of
             Inl e \<Rightarrow> Inl e
           | Inr None \<Rightarrow> Inl AssertionError
           | Inr (Some sm) \<Rightarrow> Inr (th_scalar True (\<lambda>x. 0.5 * x) sm)))"

text \<open>Lines 308--313. With a combine type other than \<^verbatim>\<open>'min'\<close> and \<^verbatim>\<open>'mean'\<close> the
  name \<^verbatim>\<open>min_qf_pi\<close> is never bound.\<close>

definition actor_loss :: "string \<Rightarrow> real \<Rightarrow> tensor \<Rightarrow> mat list \<Rightarrow> py_error + tensor" where
  "actor_loss combine ent_coef_v log_prob qs_pi =
     (case th_cat_dim1 qs_pi of
        Inl e \<Rightarrow> Inl e
      | Inr q_values_pi \<Rightarrow>
          (case (if combine = ''min''
                 then (case th_min_dim1 q_values_pi of Inl e \<Rightarrow> Inl e | Inr m \<Rightarrow> Inr (Some m))
                 else if combine = ''mean'' then Inr (Some (th_mean_dim1 q_values_pi))
                 else Inr None) of
             Inl e \<Rightarrow> Inl e
           | Inr None \<Rightarrow> Inl UnboundLocalError
           | Inr (Some min_qf_pi) \<Rightarrow>
               (case th_binop True (-) (th_scalar True (\<lambda>x. ent_coef_v * x) log_prob)
                        (as_tensor True min_qf_pi) of
                  Inl e \<Rightarrow> Inl e
                | Inr d \<Rightarrow> Inr (th_mean True d))))"

section \<open>Target synchronisation (lines 322--325)\<close>

text \<open>
  Modelled from the spec: \<^verbatim>\<open>polyak_update\<close> of \<^verbatim>\<open>stable_baselines3.common.utils\<close> is
  not among the sources. The spec (4.3): each target parameter becomes
  \<open>(1 - \<tau>) * \<theta>_targ + \<tau> * \<theta>\<close>, parameter by parameter.
\<close>

definition polyak_update :: "real list list \<Rightarrow> real list list \<Rightarrow> real \<Rightarrow> real list list" where
  "polyak_update params target_params t =
     map (\<lambda>(p, tp). map (\<lambda>(x, y). (1 - t) * y + t * x) (zip p tp)) (zip params target_params)"

definition update_target_networks ::
  "('obs, 'actor, 'opt, 'rng) dsrl \<Rightarrow> ('obs, 'actor, 'opt, 'rng) dsrl" where
  "update_target_networks self =
     self\<lparr>critic_target :=
       (critic_target self)
         \<lparr>parameters :=
            polyak_update (parameters (critic self)) (parameters (critic_target self)) (tau self),
          running_stats :=
            polyak_update (running_stats (critic self)) (running_stats (critic_target self)) 1.0\<rparr>\<rparr>"

section \<open>The training call (\<^verbatim>\<open>DSRL.train\<close>, lines 221--346)\<close>

text \<open>The lists of lines 233--234.\<close>

record metrics =
  ent_coef_losses :: "real list"
  ent_coefs :: "real list"
  actor_losses :: "real list"
  critic_losses :: "real list"
  noise_critic_losses :: "real list"

definition empty_metrics :: metrics where
  "empty_metrics =
     \<lparr>ent_coef_losses = [], ent_coefs = [], actor_losses = [], critic_losses = [],
      noise_critic_losses = []\<rparr>"

text \<open>A loop whose body may raise: the exception ends the loop and carries the object
  as it was when raised.\<close>

fun for_each :: "('s \<Rightarrow> 'i \<Rightarrow> 'e + 's) \<Rightarrow> 's \<Rightarrow> 'i list \<Rightarrow> 'e + 's" where
  "for_each body s [] = Inr s"
| "for_each body s (i # rest) =
     (case body s i of Inl e \<Rightarrow> Inl e | Inr s' \<Rightarrow> for_each body s' rest)"

text \<open>Lines 223--231.\<close>

definition start_training ::
  "('obs, 'actor, 'opt, 'rng) externals \<Rightarrow> ('obs, 'actor, 'opt, 'rng) dsrl
     \<Rightarrow> ('obs, 'actor, 'opt, 'rng) dsrl" where
  "start_training E self =
     (case policy_set_training_mode E True (actor self, critic self, critic_target self) of
        (a, c, ct) \<Rightarrow>
          self\<lparr>actor := actor_update_learning_rate E a,
               critic := c\<lparr>optimizer := update_learning_rate E (optimizer c)\<rparr>,
               critic_target := ct,
               critic_noise :=
                 (critic_noise self)
                   \<lparr>training_mode := True,
                    optimizer := update_learning_rate E (optimizer (critic_noise self))\<rparr>,
               ent_coef_optimizer := map_option (update_learning_rate E) (ent_coef_optimizer self)\<rparr>)"

text \<open>Lines 253--271: the coefficient of this step, its record in \<^verbatim>\<open>ent_coefs\<close>, and
  the optimizer step on \<^verbatim>\<open>log_ent_coef\<close> when it is learned.\<close>

definition entropy_phase ::
  "('obs, 'actor, 'opt, 'rng) externals \<Rightarrow> int \<Rightarrow> ('obs, 'actor, 'opt, 'rng) dsrl \<Rightarrow> metrics
     \<Rightarrow> tensor
     \<Rightarrow> (py_error \<times> ('obs, 'actor, 'opt, 'rng) dsrl)
         + (('obs, 'actor, 'opt, 'rng) dsrl \<times> metrics \<times> real)" where
  "entropy_phase E g self ms log_prob =
     (case entropy_coefficient self log_prob of
        Inl e \<Rightarrow> Inl (e, self)
      | Inr (ent_coef_v, None) \<Rightarrow>
          Inr (self, ms\<lparr>ent_coefs := ent_coefs ms @ [ent_coef_v]\<rparr>, ent_coef_v)
      | Inr (ent_coef_v, Some ent_coef_loss) \<Rightarrow>
          (case item ent_coef_loss of
             Inl e \<Rightarrow> Inl (e, self)
           | Inr lv \<Rightarrow>
               (let ms' = ms\<lparr>ent_coef_losses := ent_coef_losses ms @ [lv],
                              ent_coefs := ent_coefs ms @ [ent_coef_v]\<rparr>
                in (case (ent_coef_optimizer self, log_ent_coef self, target_entropy self) of
                      (Some opt, Some l, PFloat te) \<Rightarrow>
                        (case ent_coef_optimizer_step E opt l
                                (th_scalar False (\<lambda>x. x + te) log_prob) of
                           (l', opt') \<Rightarrow>
                             Inr (self\<lparr>log_ent_coef := Some l', ent_coef_optimizer := Some opt',
                                       trace := trace self @ [EntCoefStep g]\<rparr>,
                                  ms', ent_coef_v))
                    | _ \<Rightarrow> Inr (self, ms', ent_coef_v)))))"

text \<open>Lines 275--278: the next action of the actor, unscaled, decoded by the diffusion
  policy and flattened; with the next log-probabilities and the random state.\<close>

definition decode_next_actions ::
  "('obs, 'actor, 'opt, 'rng) externals \<Rightarrow> ('obs, 'actor, 'opt, 'rng) dsrl \<Rightarrow> 'obs replay_data
     \<Rightarrow> py_error + (mat \<times> real list \<times> 'rng)" where
  "decode_next_actions E self replay =
     (case action_log_prob E (actor self) (next_observations replay) (rng self) of
        ((next_actions, next_log_prob), r) \<Rightarrow>
          (case reshape_3d (unscale_action E next_actions)
                   (diffusion_act_chunk self) (diffusion_act_dim self) of
             Inl e \<Rightarrow> Inl e
           | Inr x \<Rightarrow>
               (case diffusion_policy self of
                  None \<Rightarrow> Inl TypeError
                | Some dp \<Rightarrow>
                    (case reshape_2d (dp (next_observations replay) x)
                             (diffusion_act_chunk self * diffusion_act_dim self) of
                       Inl e \<Rightarrow> Inl e
                     | Inr next_actions' \<Rightarrow> Inr (next_actions', next_log_prob, r)))))"

text \<open>Lines 273--302: the target, the critic loss, its record, the critic's optimizer
  step.\<close>

definition critic_phase ::
  "('obs, 'actor, 'opt, 'rng) externals \<Rightarrow> int \<Rightarrow> ('obs, 'actor, 'opt, 'rng) dsrl \<Rightarrow> metrics
     \<Rightarrow> 'obs replay_data \<Rightarrow> real
     \<Rightarrow> (py_error \<times> ('obs, 'actor, 'opt, 'rng) dsrl) + (('obs, 'actor, 'opt, 'rng) dsrl \<times> metrics)" where
  "critic_phase E g self ms replay ent_coef_v =
     (case decode_next_actions E self replay of
        Inl e \<Rightarrow> Inl (e, self)
      | Inr (next_actions, next_log_prob, r) \<Rightarrow>
          (let self1 = self\<lparr>rng := r\<rparr> in
           case td_target (critic_backup_combine_type self1) (gamma self1) ent_coef_v
                  (critic_forward E (critic_target self1) (next_observations replay) next_actions)
                  next_log_prob (rewards replay) (dones replay) of
             Inl e \<Rightarrow> Inl (e, self1)
           | Inr target_q_values \<Rightarrow>
               (case critic_loss
                       (map (as_tensor True)
                          (critic_forward E (critic self1) (observations replay)
                             (vals (actions replay))))
                       target_q_values of
                  Inl e \<Rightarrow> Inl (e, self1)
                | Inr loss \<Rightarrow>
                    (case item loss of
                       Inl e \<Rightarrow> Inl (e, self1)
                     | Inr lv \<Rightarrow>
                         Inr (self1\<lparr>critic :=
                                      critic_optimizer_step E (critic self1) replay target_q_values,
                                    trace := trace self1 @ [CriticStep g]\<rparr>,
                              ms\<lparr>critic_losses := critic_losses ms @ [lv]\<rparr>)))))"

text \<open>Lines 305--319.\<close>

definition actor_phase ::
  "('obs, 'actor, 'opt, 'rng) externals \<Rightarrow> int \<Rightarrow> ('obs, 'actor, 'opt, 'rng) dsrl \<Rightarrow> metrics
     \<Rightarrow> 'obs replay_data \<Rightarrow> mat \<Rightarrow> tensor \<Rightarrow> real
     \<Rightarrow> (py_error \<times> ('obs, 'actor, 'opt, 'rng) dsrl) + (('obs, 'actor, 'opt, 'rng) dsrl \<times> metrics)" where
  "actor_phase E g self ms replay actions_pi log_prob ent_coef_v =
     (case actor_loss (critic_backup_combine_type self) ent_coef_v log_prob
             (critic_forward E (critic_noise self) (observations replay) actions_pi) of
        Inl e \<Rightarrow> Inl (e, self)
      | Inr loss \<Rightarrow>
          (case item loss of
             Inl e \<Rightarrow> Inl (e, self)
           | Inr lv \<Rightarrow>
               Inr (self\<lparr>actor :=
                           actor_optimizer_step E (actor self) (critic_noise self)
                             (observations replay) ent_coef_v,
                         trace := trace self @ [ActorStep g]\<rparr>,
                    ms\<lparr>actor_losses := actor_losses ms @ [lv]\<rparr>)))"

text \<open>Lines 322--325.\<close>

definition target_phase ::
  "int \<Rightarrow> ('obs, 'actor, 'opt, 'rng) dsrl
     \<Rightarrow> (py_error \<times> ('obs, 'actor, 'opt, 'rng) dsrl) + ('obs, 'actor, 'opt, 'rng) dsrl" where
  "target_phase g self =
     (if target_update_interval self = 0 then Inl (ZeroDivisionError, self)
      else if g mod target_update_interval self = 0
           then Inr ((update_target_networks self)\<lparr>trace := trace self @ [TargetSync g]\<rparr>)
           else Inr self)"

text \<open>Lines 242--251: the batch, the reset of the exploration noise, and the actor's
  action and log-probability on the batch's observations.\<close>

definition sample_and_act ::
  "('obs, 'actor, 'opt, 'rng) externals \<Rightarrow> int \<Rightarrow> ('obs, 'actor, 'opt, 'rng) dsrl
     \<Rightarrow> ('obs, 'actor, 'opt, 'rng) dsrl \<times> 'obs replay_data \<times> mat \<times> tensor" where
  "sample_and_act E batch_size self0 =
     (case replay_buffer_sample E batch_size (rng self0) of
        (replay, r1) \<Rightarrow>
          (let self1 = self0\<lparr>rng := r1\<rparr>;
               self2 = (if use_sde self1
                        then (case reset_noise E (actor self1) (rng self1) of
                                (a, r) \<Rightarrow> self1\<lparr>actor := a, rng := r\<rparr>)
                        else self1)
           in (case action_log_prob E (actor self2) (observations replay) (rng self2) of
                 ((actions_pi, lp), r3) \<Rightarrow>
                   (self2\<lparr>rng := r3\<rparr>, replay, actions_pi, as_tensor True (reshape_col lp)))))"

text \<open>The body of the loop of line 241.\<close>

definition gradient_step ::
  "('obs, 'actor, 'opt, 'rng) externals \<Rightarrow> int list \<Rightarrow> int
     \<Rightarrow> ('obs, 'actor, 'opt, 'rng) dsrl \<times> metrics \<Rightarrow> int
     \<Rightarrow> (py_error \<times> ('obs, 'actor, 'opt, 'rng) dsrl) + (('obs, 'actor, 'opt, 'rng) dsrl \<times> metrics)" where
  "gradient_step E idx batch_size sm g =
     (case sm of
        (self0, ms0) \<Rightarrow>
          (case sample_and_act E batch_size self0 of
             (self3, replay, actions_pi, log_prob) \<Rightarrow>
               (case entropy_phase E g self3 ms0 log_prob of
                  Inl err \<Rightarrow> Inl err
                | Inr (self4, ms1, ent_coef_v) \<Rightarrow>
                    (case critic_phase E g self4 ms1 replay ent_coef_v of
                       Inl err \<Rightarrow> Inl err
                     | Inr (self5, ms2) \<Rightarrow>
                         (case (if np_in g idx
                                then actor_phase E g self5 ms2 replay actions_pi
                                       log_prob ent_coef_v
                                else Inr (self5, ms2)) of
                            Inl err \<Rightarrow> Inl err
                          | Inr (self6, ms3) \<Rightarrow>
                              (case target_phase g self6 of
                                 Inl err \<Rightarrow> Inl err
                               | Inr self7 \<Rightarrow> Inr (self7, ms3)))))))"

text \<open>Lines 358--362 of \<^verbatim>\<open>update_noise_critic\<close>: the loop over
  \<^verbatim>\<open>range(len(current_q_values))\<close>; the accumulator starts as the integer \<open>0\<close>
  (\<open>None\<close>), and \<^verbatim>\<open>current_q_noise_vals[i]\<close> raises when the noise critic has fewer
  outputs.\<close>

fun distill_sum :: "tensor option \<Rightarrow> tensor list \<Rightarrow> tensor list \<Rightarrow> py_error + tensor option" where
  "distill_sum acc [] ns = Inr acc"
| "distill_sum acc (q # qs) [] = Inl IndexError"
| "distill_sum acc (q # qs) (n # ns) =
     (case mse_loss True (q\<lparr>requires_grad := False\<rparr>) n of
        Inl e \<Rightarrow> Inl e
      | Inr l \<Rightarrow>
          (let h = th_scalar True (\<lambda>x. 0.5 * x) l in
           case acc of
             None \<Rightarrow> distill_sum (Some (th_scalar True (\<lambda>x. 0 + x) h)) qs ns
           | Some a \<Rightarrow>
               (case th_binop True (+) a h of
                  Inl e \<Rightarrow> Inl e
                | Inr a' \<Rightarrow> distill_sum (Some a') qs ns)))"

text \<open>Lines 349--363. The result is the loss (\<open>None\<close>: the integer \<open>0\<close>), the scaled
  noise, the critic's values on the decoded noise, and the random state.\<close>

definition update_noise_critic ::
  "('obs, 'actor, 'opt, 'rng) externals \<Rightarrow> ('obs, 'actor, 'opt, 'rng) dsrl \<Rightarrow> 'obs replay_data
     \<Rightarrow> py_error + (tensor option \<times> mat \<times> tensor list \<times> 'rng)" where
  "update_noise_critic E self replay =
     (if diffusion_act_chunk self < 0 \<or> diffusion_act_dim self < 0 then Inl RuntimeError
      else
        (case th_randn E (length (vals (actions replay))) (nat (diffusion_act_chunk self))
                (nat (diffusion_act_dim self)) (rng self) of
           (noise_actions, r) \<Rightarrow>
             (case diffusion_policy self of
                None \<Rightarrow> Inl TypeError
              | Some dp \<Rightarrow>
                  (case reshape_2d (dp (observations replay) noise_actions)
                           (diffusion_act_chunk self * diffusion_act_dim self) of
                     Inl e \<Rightarrow> Inl e
                   | Inr diffused_actions \<Rightarrow>
                       (let current_q_values =
                              map (as_tensor False)
                                (critic_forward E (critic self) (observations replay)
                                   diffused_actions)
                        in (case reshape_2d noise_actions
                                     (diffusion_act_chunk self * diffusion_act_dim self) of
                              Inl e \<Rightarrow> Inl e
                            | Inr flat_noise \<Rightarrow>
                                (let noise_actions' = scale_action E flat_noise;
                                     current_q_noise_vals =
                                       map (as_tensor True)
                                         (critic_forward E (critic_noise self)
                                            (observations replay) noise_actions')
                                 in (case distill_sum None current_q_values
                                              current_q_noise_vals of
                                       Inl e \<Rightarrow> Inl e
                                     | Inr loss \<Rightarrow>
                                         Inr (loss, noise_actions', current_q_values, r)))))))))"

text \<open>The body of the loop of line 327. \<^verbatim>\<open>(0 + loss).item()\<close> raises
  \<^verbatim>\<open>AttributeError\<close> when the loss is the integer \<open>0\<close>.\<close>

definition noise_critic_step ::
  "('obs, 'actor, 'opt, 'rng) externals \<Rightarrow> int
     \<Rightarrow> ('obs, 'actor, 'opt, 'rng) dsrl \<times> metrics \<Rightarrow> int
     \<Rightarrow> (py_error \<times> ('obs, 'actor, 'opt, 'rng) dsrl) + (('obs, 'actor, 'opt, 'rng) dsrl \<times> metrics)" where
  "noise_critic_step E batch_size sm j =
     (case sm of
        (self0, ms0) \<Rightarrow>
          (case replay_buffer_sample E batch_size (rng self0) of
             (replay, r1) \<Rightarrow>
               (let self1 = self0\<lparr>rng := r1\<rparr> in
                case update_noise_critic E self1 replay of
                  Inl e \<Rightarrow> Inl (e, self1)
                | Inr (None, noise, cq, r2) \<Rightarrow> Inl (AttributeError, self1\<lparr>rng := r2\<rparr>)
                | Inr (Some loss, noise, cq, r2) \<Rightarrow>
                    (case item loss of
                       Inl e \<Rightarrow> Inl (e, self1\<lparr>rng := r2\<rparr>)
                     | Inr lv \<Rightarrow>
                         Inr (self1\<lparr>rng := r2,
                                    critic_noise :=
                                      noise_critic_optimizer_step E (critic_noise self1)
                                        (observations replay) noise cq,
                                    trace := trace self1 @ [NoiseCriticStep j]\<rparr>,
                              ms0\<lparr>noise_critic_losses := noise_critic_losses ms0 @ [lv]\<rparr>)))))"

text \<open>Lines 337--346.\<close>

definition finish_training ::
  "('obs, 'actor, 'opt, 'rng) dsrl \<Rightarrow> metrics \<Rightarrow> int \<Rightarrow> ('obs, 'actor, 'opt, 'rng) dsrl" where
  "finish_training self ms gradient_steps =
     self\<lparr>critic_noise := (critic_noise self)\<lparr>training_mode := False\<rparr>,
          n_updates := n_updates self + gradient_steps,
          logger :=
            logger self
            @ [(''train/n_updates'', real_of_int (n_updates self + gradient_steps)),
               (''train/ent_coef'', np_mean (ent_coefs ms)),
               (''train/actor_loss'', np_mean (actor_losses ms)),
               (''train/critic_loss'', np_mean (critic_losses ms)),
               (''train/noise_critic_loss'', np_mean (noise_critic_losses ms))]
            @ (if length (ent_coef_losses ms) > 0
               then [(''train/ent_coef_loss'', np_mean (ent_coef_losses ms))]
               else [])\<rparr>"

text \<open>The two loops of \<^verbatim>\<open>train\<close> (lines 241 and 327), with the lists of line 233.\<close>

definition run_gradient_steps ::
  "('obs, 'actor, 'opt, 'rng) externals \<Rightarrow> int list \<Rightarrow> int
     \<Rightarrow> ('obs, 'actor, 'opt, 'rng) dsrl \<Rightarrow> int
     \<Rightarrow> (py_error \<times> ('obs, 'actor, 'opt, 'rng) dsrl) + (('obs, 'actor, 'opt, 'rng) dsrl \<times> metrics)" where
  "run_gradient_steps E idx batch_size self gradient_steps =
     for_each (gradient_step E idx batch_size) (self, empty_metrics) (py_range gradient_steps)"

definition run_noise_critic_steps ::
  "('obs, 'actor, 'opt, 'rng) externals \<Rightarrow> int
     \<Rightarrow> ('obs, 'actor, 'opt, 'rng) dsrl \<times> metrics
     \<Rightarrow> (py_error \<times> ('obs, 'actor, 'opt, 'rng) dsrl) + (('obs, 'actor, 'opt, 'rng) dsrl \<times> metrics)" where
  "run_noise_critic_steps E batch_size sm =
     for_each (noise_critic_step E batch_size) sm (py_range (noise_critic_grad_steps (fst sm)))"

text \<open>\<^verbatim>\<open>DSRL.train(gradient_steps, batch_size)\<close>. An exception carries the object as it
  was when raised (the object is mutated in place).\<close>

definition train ::
  "('obs, 'actor, 'opt, 'rng) externals \<Rightarrow> ('obs, 'actor, 'opt, 'rng) dsrl \<Rightarrow> int \<Rightarrow> int
     \<Rightarrow> (py_error \<times> ('obs, 'actor, 'opt, 'rng) dsrl) + ('obs, 'actor, 'opt, 'rng) dsrl" where
  "train E self gradient_steps batch_size =
     (let self1 = start_training E self in
      case actor_gradient_idx gradient_steps (actor_gradient_steps self1) of
        Inl e \<Rightarrow> Inl (e, self1)
      | Inr idx \<Rightarrow>
          (case run_gradient_steps E idx batch_size self1 gradient_steps of
             Inl err \<Rightarrow> Inl err
           | Inr sm \<Rightarrow>
               (case run_noise_critic_steps E batch_size sm of
                  Inl err \<Rightarrow> Inl err
                | Inr (self2, ms) \<Rightarrow> Inr (finish_training self2 ms gradient_steps))))"

section \<open>Exploration (\<^verbatim>\<open>DSRL._sample_action\<close>, lines 397--450)\<close>

text \<open>\<^verbatim>\<open>np.array([self.action_space.sample() for _ in range(n_envs)])\<close>.\<close>

fun sample_n :: "('rng \<Rightarrow> real list \<times> 'rng) \<Rightarrow> nat \<Rightarrow> 'rng \<Rightarrow> mat \<times> 'rng" where
  "sample_n smp 0 r = ([], r)"
| "sample_n smp (Suc n) r =
     (case smp r of (x, r1) \<Rightarrow> (case sample_n smp n r1 of (xs, r2) \<Rightarrow> (x # xs, r2)))"

text \<open>\<^verbatim>\<open>np.clip(a + b, lo, hi)\<close>; NumPy raises \<^verbatim>\<open>ValueError\<close> when the shapes do not
  broadcast.\<close>

definition np_clip_add :: "mat \<Rightarrow> mat \<Rightarrow> real \<Rightarrow> real \<Rightarrow> py_error + mat" where
  "np_clip_add a b lo hi =
     (case bcast2 (+) a b of
        Inl e \<Rightarrow> Inl ValueError
      | Inr m \<Rightarrow> Inr (map (map (\<lambda>x. min hi (max lo x))) m))"

text \<open>Lines 419--427: the action before scaling.\<close>

definition select_action ::
  "('obs, 'actor, 'opt, 'rng) externals \<Rightarrow> ('obs, 'actor, 'opt, 'rng) dsrl \<Rightarrow> int \<Rightarrow> int
     \<Rightarrow> py_error + (mat \<times> 'rng)" where
  "select_action E self learning_starts n_envs =
     (if num_timesteps self < learning_starts \<and> \<not> (use_sde self \<and> use_sde_at_warmup self)
      then Inr (sample_n (action_space_sample E) (nat n_envs) (rng self))
      else (case last_obs self of
              None \<Rightarrow> Inl AssertionError
            | Some ob \<Rightarrow> Inr (predict E (actor self) ob (rng self))))"

text \<open>Lines 430--443: the action given to the decoder and the (first) buffer action.\<close>

definition perturb_action ::
  "('obs, 'actor, 'opt, 'rng) externals \<Rightarrow> ('rng \<Rightarrow> mat \<times> 'rng) option \<Rightarrow> mat \<Rightarrow> 'rng
     \<Rightarrow> py_error + (mat \<times> mat \<times> 'rng)" where
  "perturb_action E action_noise unscaled_action r =
     (if action_space_is_box E
      then (case action_noise of
              None \<Rightarrow>
                Inr (unscale_action E (scale_action E unscaled_action),
                     scale_action E unscaled_action, r)
            | Some noise \<Rightarrow>
                (case noise r of
                   (nz, r1) \<Rightarrow>
                     (case np_clip_add (scale_action E unscaled_action) nz (- 1) 1 of
                        Inl e \<Rightarrow> Inl e
                      | Inr scaled_action \<Rightarrow>
                          Inr (unscale_action E scaled_action, scaled_action, r1))))
      else Inr (unscaled_action, unscaled_action, r))"

text \<open>\<^verbatim>\<open>_sample_action(learning_starts, action_noise, n_envs)\<close>: the pair
  \<^verbatim>\<open>(action, buffer_action)\<close> and the random state.\<close>

definition sample_action ::
  "('obs, 'actor, 'opt, 'rng) externals \<Rightarrow> ('obs, 'actor, 'opt, 'rng) dsrl \<Rightarrow> int
     \<Rightarrow> ('rng \<Rightarrow> mat \<times> 'rng) option \<Rightarrow> int
     \<Rightarrow> py_error + ((mat \<times> mat) \<times> 'rng)" where
  "sample_action E self learning_starts action_noise n_envs =
     (case select_action E self learning_starts n_envs of
        Inl e \<Rightarrow> Inl e
      | Inr (unscaled_action, r1) \<Rightarrow>
          (case perturb_action E action_noise unscaled_action r1 of
             Inl e \<Rightarrow> Inl e
           | Inr (action, buffer_action, r2) \<Rightarrow>
               (case last_obs self of
                  None \<Rightarrow> Inl RuntimeError
                | Some ob \<Rightarrow>
                    (case reshape_3d action (diffusion_act_chunk self) (diffusion_act_dim self) of
                       Inl e \<Rightarrow> Inl e
                     | Inr x \<Rightarrow>
                         (case diffusion_policy self of
                            None \<Rightarrow> Inl TypeError
                          | Some dp \<Rightarrow>
                              (case reshape_2d (dp ob x)
                                       (diffusion_act_chunk self * diffusion_act_dim self) of
                                 Inl e \<Rightarrow> Inl e
                               | Inr action' \<Rightarrow>
                                   (let buffer_action' = action'
                                    in Inr ((action', buffer_action'), r2))))))))"

section \<open>Notions used in the statements\<close>

text \<open>The distillation events, and the steps at which a trace has an actor update.\<close>

definition is_noise_event :: "event \<Rightarrow> bool" where
  "is_noise_event e = (case e of NoiseCriticStep j \<Rightarrow> True | _ \<Rightarrow> False)"

definition actor_steps :: "event list \<Rightarrow> int list" where
  "actor_steps ev = concat (map (\<lambda>e. case e of ActorStep g \<Rightarrow> [g] | _ \<Rightarrow> []) ev)"

definition critic_steps :: "event list \<Rightarrow> int list" where
  "critic_steps ev = concat (map (\<lambda>e. case e of CriticStep g \<Rightarrow> [g] | _ \<Rightarrow> []) ev)"

text \<open>The events of one completed gradient step \<open>g\<close>, in their order: the flags say
  whether the entropy coefficient, the actor and the target were updated.\<close>

definition step_events :: "bool \<Rightarrow> int \<Rightarrow> bool \<Rightarrow> bool \<Rightarrow> event list" where
  "step_events ent g act sync =
     (if ent then [EntCoefStep g] else []) @ [CriticStep g]
     @ (if act then [ActorStep g] else []) @ (if sync then [TargetSync g] else [])"

text \<open>The attributes that the loops of \<^verbatim>\<open>train\<close> never assign, and whether the entropy
  coefficient is learned.\<close>

definition frame ::
  "('obs, 'actor, 'opt, 'rng) dsrl \<Rightarrow> ('obs, 'actor, 'opt, 'rng) dsrl \<Rightarrow> bool" where
  "frame s s' =
     (n_updates s' = n_updates s \<and> logger s' = logger s
      \<and> ent_coef_tensor s' = ent_coef_tensor s \<and> target_entropy s' = target_entropy s
      \<and> tau s' = tau s \<and> gamma s' = gamma s \<and> use_sde s' = use_sde s
      \<and> target_update_interval s' = target_update_interval s
      \<and> actor_gradient_steps s' = actor_gradient_steps s
      \<and> noise_critic_grad_steps s' = noise_critic_grad_steps s
      \<and> critic_backup_combine_type s' = critic_backup_combine_type s
      \<and> diffusion_policy s' = diffusion_policy s
      \<and> diffusion_act_chunk s' = diffusion_act_chunk s
      \<and> diffusion_act_dim s' = diffusion_act_dim s
      \<and> (log_ent_coef s' = None) = (log_ent_coef s = None)
      \<and> (ent_coef_optimizer s' = None) = (ent_coef_optimizer s = None))"

text \<open>The entropy coefficient that lines 254--262 read off the object: \<open>exp\<close> of
  \<^verbatim>\<open>log_ent_coef\<close> when there is an optimizer for it, \<^verbatim>\<open>ent_coef_tensor\<close> otherwise.\<close>

definition coef_of :: "('obs, 'actor, 'opt, 'rng) dsrl \<Rightarrow> real option" where
  "coef_of s =
     (case (ent_coef_optimizer s, log_ent_coef s) of
        (Some opt, Some l) \<Rightarrow> Some (exp l)
      | _ \<Rightarrow> ent_coef_tensor s)"

text \<open>In a trace, every target synchronisation of a step comes after the critic's
  optimizer step of the same step.\<close>

definition sync_after_critic :: "event list \<Rightarrow> bool" where
  "sync_after_critic ev =
     (\<forall>i g. i < length ev \<and> ev ! i = TargetSync g \<longrightarrow> (\<exists>j<i. ev ! j = CriticStep g))"

section \<open>The critic loss in the spec's words\<close>






section \<open>A concrete instance\<close>

text \<open>
  Collaborators over trivial types, for evaluating the definitions at concrete inputs:
  one environment, a one-dimensional action in \<open>[-1, 1]\<close> (so that scaling is the
  identity), a batch of one transition, two critics per ensemble, a decoder that returns
  its noise, and optimizers that shift what they optimize.
\<close>

definition example_net :: "unit critic_net" where
  "example_net = \<lparr>parameters = [[1, 2]], running_stats = [[0]], optimizer = (), training_mode = False\<rparr>"

definition example_batch :: "unit replay_data" where
  "example_batch =
     \<lparr>observations = (), actions = as_tensor False [[1 / 2]], next_observations = (),
      dones = as_tensor False [[0]], rewards = as_tensor False [[1]]\<rparr>"

definition example_externals :: "(unit, unit, unit, unit) externals" where
  "example_externals =
     \<lparr>super_init = (\<lambda>a. None),
      super_setup_model = (\<lambda>r. Inr (((), example_net, example_net), r)),
      policy_class = (\<lambda>r. Inr (example_net, r)),
      seed_rng = (),
      new_adam = (),
      float_of_str = float_decimal,
      action_space_shape = [1],
      action_space_is_box = True,
      action_space_sample = (\<lambda>r. ([1 / 2], r)),
      predict = (\<lambda>a ob r. ([[1 / 4]], r)),
      scale_action = (\<lambda>m. m),
      unscale_action = (\<lambda>m. m),
      replay_buffer_sample = (\<lambda>n r. (example_batch, r)),
      action_log_prob = (\<lambda>a ob r. (([[1 / 2]], [- 1]), r)),
      reset_noise = (\<lambda>a r. (a, r)),
      critic_forward = (\<lambda>net ob a. [[[3]], [[5]]]),
      th_randn = (\<lambda>b c d r. ([[[0]]], r)),
      policy_set_training_mode = (\<lambda>b p. p),
      actor_update_learning_rate = (\<lambda>a. a),
      update_learning_rate = (\<lambda>opt. opt),
      ent_coef_optimizer_step = (\<lambda>opt l t. (l - 1, opt)),
      critic_optimizer_step = (\<lambda>net b t. net\<lparr>parameters := map (map (\<lambda>x. x + 1)) (parameters net)\<rparr>),
      actor_optimizer_step = (\<lambda>a net ob c. a),
      noise_critic_optimizer_step = (\<lambda>net ob m t. net)\<rparr>"

definition example_args :: "unit dsrl_args" where
  "example_args =
     default_args\<lparr>arg_diffusion_policy := Some (\<lambda>ob x. x), arg_diffusion_act_dim := Some [1, 1]\<rparr>"

text \<open>The object that \<open>DSRL_init example_externals example_args\<close> builds.\<close>

definition example_model :: "(unit, unit, unit, unit) dsrl" where
  "example_model =
     \<lparr>tau = 1 / 200, gamma = 99 / 100, use_sde = False, use_sde_at_warmup = False,
      num_timesteps = 0, n_updates = 0, target_entropy = PFloat (- 1),
      log_ent_coef = Some 0, ent_coef = PStr ''auto'', target_update_interval = 1,
      ent_coef_optimizer = Some (), actor_gradient_steps = - 1,
      diffusion_policy = Some (\<lambda>ob x. x), diffusion_act_chunk = 1, diffusion_act_dim = 1,
      noise_critic_grad_steps = 1, critic_backup_combine_type = ''min'',
      actor = (), critic = example_net, critic_target = example_net,
      critic_noise = example_net, ent_coef_tensor = None, last_obs = None, rng = (),
      logger = [], trace = []\<rparr>"

section \<open>Arithmetic of the index array\<close>





















section \<open>Evaluation of the concrete instance\<close>

lemmas setup_defs = init_fields_def setup_target_entropy_def setup_ent_coef_def setup_model_def
  DSRL_init_def py_index_def py_float_def startswith_def
lemmas example_defs = example_net_def example_batch_def example_externals_def example_args_def
  default_args_def example_model_def
lemmas tensor_defs = as_tensor_def bcast_list_def bcast2_def th_binop_def th_scalar_def
  reshape_col_def th_cat_dim1_def th_min_dim1_def th_mean_dim1_def np_mean_def th_mean_def item_def
  mse_loss_def py_sum_def reshape_3d_def reshape_2d_def
lemmas train_defs = train_def run_gradient_steps_def run_noise_critic_steps_def gradient_step_def
  sample_and_act_def   noise_critic_step_def finish_training_def start_training_def entropy_phase_def
  entropy_coefficient_def decode_next_actions_def critic_phase_def actor_phase_def target_phase_def
  td_target_def critic_loss_def actor_loss_def update_target_networks_def polyak_update_def
  update_noise_critic_def empty_metrics_def actor_gradient_idx_def np_linspace_int_def
  py_int_truediv_def py_range_def np_in_def
lemmas sample_defs = sample_action_def select_action_def perturb_action_def np_clip_add_def

lemma example_built: "DSRL_init example_externals example_args = Inr (Built example_model)"
  by (simp add: setup_defs example_defs dsrl_fields.defs dsrl.defs)

lemma example_sample:
  "sample_action example_externals (example_model\<lparr>last_obs := Some ()\<rparr>) 100
      (Some (\<lambda>r. ([[1]], r))) 1 = Inr (([[1]], [[1]]), ())"
  by (simp add: sample_defs example_defs tensor_defs)

section \<open>Soft update of the target critic\<close>

lemma polyak_nth:
  assumes "map length ps = map length ts" "i < length ts" "j < length (ts ! i)"
  shows "polyak_update ps ts t ! i ! j = (1 - t) * ts ! i ! j + t * ps ! i ! j"
proof -
  have len: "length ps = length ts" using assms(1) by (metis length_map)
  have "length (ps ! i) = length (ts ! i)"
    using assms(1,2) len by (metis nth_map)
  then show ?thesis using assms len by (simp add: polyak_update_def)
qed

lemma polyak_shape:
  assumes "map length ps = map length ts"
  shows "map length (polyak_update ps ts t) = map length ts"
proof -
  have len: "length ps = length ts" using assms by (metis length_map)
  have "\<And>i. i < length ts \<Longrightarrow> length (ps ! i) = length (ts ! i)"
    using assms len by (metis nth_map)
  then show ?thesis using len
    by (auto simp: polyak_update_def list_eq_iff_nth_eq)
qed

lemma polyak_copy:
  assumes "map length ps = map length ts"
  shows "polyak_update ps ts 1 = ps"
proof -
  have len: "length ps = length ts" using assms by (metis length_map)
  have l2: "\<And>i. i < length ts \<Longrightarrow> length (ps ! i) = length (ts ! i)"
    using assms len by (metis nth_map)
  have "\<And>(p::real list) tp. length p = length tp \<Longrightarrow> map (\<lambda>(x, y). (1 - 1) * y + 1 * x) (zip p tp) = p"
    by (auto simp: list_eq_iff_nth_eq)
  then show ?thesis using len l2
    by (auto simp: polyak_update_def list_eq_iff_nth_eq)
qed

text \<open>
  C5. One target synchronisation (\<open>update_target_networks\<close>, run by \<open>target_phase\<close> at
  the steps divisible by the update interval) on a target critic shaped like the online
  critic: every element of every target parameter tensor becomes
  \<open>(1 - tau) * old_target + tau * online\<close>, the running statistics of the target become
  those of the online critic, and the actor, the online critic and the noise critic are
  left as they were. It holds for every \<open>tau\<close>, in particular for \<open>tau\<close> in \<open>(0, 1]\<close>.
\<close>

theorem target_sync_polyak:
  assumes "map length (parameters (critic self)) = map length (parameters (critic_target self))"
      and "map length (running_stats (critic self)) = map length (running_stats (critic_target self))"
  shows "map length (parameters (critic_target (update_target_networks self)))
           = map length (parameters (critic_target self))
       \<and> (\<forall>i j. i < length (parameters (critic_target self))
              \<and> j < length (parameters (critic_target self) ! i) \<longrightarrow>
            parameters (critic_target (update_target_networks self)) ! i ! j
              = (1 - tau self) * parameters (critic_target self) ! i ! j
                + tau self * parameters (critic self) ! i ! j)
       \<and> running_stats (critic_target (update_target_networks self)) = running_stats (critic self)
       \<and> actor (update_target_networks self) = actor self
       \<and> critic (update_target_networks self) = critic self
       \<and> critic_noise (update_target_networks self) = critic_noise self
       \<and> (target_update_interval self \<noteq> 0 \<and> g mod target_update_interval self = 0 \<longrightarrow>
            target_phase g self
              = Inr ((update_target_networks self)\<lparr>trace := trace self @ [TargetSync g]\<rparr>))"
  using assms polyak_nth[OF assms(1)] polyak_shape[OF assms(1)] polyak_copy[OF assms(2)]
  by (simp add: update_target_networks_def target_phase_def)

theorem target_sync_polyak_witness:
  "parameters (critic_target (update_target_networks
      (example_model\<lparr>critic := example_net\<lparr>parameters := [[201, 2]], running_stats := [[7]]\<rparr>\<rparr>)))
     ! 0 ! 0 = 2
   \<and> running_stats (critic_target (update_target_networks
      (example_model\<lparr>critic := example_net\<lparr>parameters := [[201, 2]], running_stats := [[7]]\<rparr>\<rparr>)))
     = [[7]]
   \<and> target_phase 3
        (example_model\<lparr>critic := example_net\<lparr>parameters := [[201, 2]], running_stats := [[7]]\<rparr>\<rparr>)
      = Inr ((update_target_networks
               (example_model\<lparr>critic := example_net\<lparr>parameters := [[201, 2]], running_stats := [[7]]\<rparr>\<rparr>))
             \<lparr>trace := [TargetSync 3]\<rparr>)"
  using target_sync_polyak
    [of "example_model\<lparr>critic := example_net\<lparr>parameters := [[201, 2]], running_stats := [[7]]\<rparr>\<rparr>" 3]
  by (simp add: example_defs)

section \<open>Construction without \<^verbatim>\<open>diffusion_act_dim\<close>\<close>

text \<open>
  C9. \<^verbatim>\<open>diffusion_act_dim\<close> defaults to \<^verbatim>\<open>None\<close>, and with \<^verbatim>\<open>None\<close> the constructor
  always fails: once the base class's constructor has returned, line 164 raises
  \<^verbatim>\<open>TypeError\<close> (had the base class raised, that exception is the result). The
  attributes are never completed, so \<^verbatim>\<open>_setup_model\<close> is not reached: the result does
  not depend on what the setup's collaborators would do.
\<close>

theorem init_without_diffusion_act_dim:
  "arg_diffusion_act_dim (default_args :: 'obs dsrl_args) = None
   \<and> init_fields E (a\<lparr>arg_diffusion_act_dim := None\<rparr>)
       = Inl (case super_init E (a\<lparr>arg_diffusion_act_dim := None\<rparr>) of
                Some e \<Rightarrow> e | None \<Rightarrow> TypeError)
   \<and> DSRL_init E (a\<lparr>arg_diffusion_act_dim := None\<rparr>)
       = Inl (case super_init E (a\<lparr>arg_diffusion_act_dim := None\<rparr>) of
                Some e \<Rightarrow> e | None \<Rightarrow> TypeError)
   \<and> (\<forall>f p. DSRL_init (E\<lparr>super_setup_model := f, policy_class := p\<rparr>)
                (a\<lparr>arg_diffusion_act_dim := None\<rparr>)
            = DSRL_init E (a\<lparr>arg_diffusion_act_dim := None\<rparr>))"
  by (simp add: default_args_def init_fields_def DSRL_init_def split: option.split)

section \<open>The exploration-time action\<close>

text \<open>
  C7. For a \<^verbatim>\<open>Box\<close> action space, whenever \<^verbatim>\<open>_sample_action\<close> returns, the two
  components of the pair are the same array, and it is the flattened output of the
  decoder on the reshaped action, where that action is the unscaled form of the scaled
  sampled action, with the noise added and the sum clipped to \<open>[-1, 1]\<close> when an action
  noise is given.
\<close>

theorem sample_action_pair:
  assumes box: "action_space_is_box E"
      and ret: "sample_action E self learning_starts action_noise n_envs = Inr ((action, buffer_action), r)"
  shows "action = buffer_action
       \<and> (\<exists>unscaled r1 decoder_input scaled r2 ob dp x.
             select_action E self learning_starts n_envs = Inr (unscaled, r1)
           \<and> perturb_action E action_noise unscaled r1 = Inr (decoder_input, scaled, r2)
           \<and> decoder_input = unscale_action E scaled
           \<and> (case action_noise of
                 None \<Rightarrow> scaled = scale_action E unscaled
               | Some noise \<Rightarrow>
                   np_clip_add (scale_action E unscaled) (fst (noise r1)) (- 1) 1 = Inr scaled)
           \<and> last_obs self = Some ob
           \<and> diffusion_policy self = Some dp
           \<and> reshape_3d decoder_input (diffusion_act_chunk self) (diffusion_act_dim self) = Inr x
           \<and> reshape_2d (dp ob x) (diffusion_act_chunk self * diffusion_act_dim self) = Inr action)"
proof -
  from ret obtain unscaled r1 where sel: "select_action E self learning_starts n_envs = Inr (unscaled, r1)"
    by (auto simp: sample_action_def split: sum.splits)
  from ret sel obtain di scaled r2 where per: "perturb_action E action_noise unscaled r1 = Inr (di, scaled, r2)"
    by (auto simp: sample_action_def split: sum.splits)
  from ret sel per obtain ob where ob: "last_obs self = Some ob"
    by (auto simp: sample_action_def split: option.splits)
  from ret sel per ob obtain x where x: "reshape_3d di (diffusion_act_chunk self) (diffusion_act_dim self) = Inr x"
    by (auto simp: sample_action_def split: sum.splits)
  from ret sel per ob x obtain dp where dp: "diffusion_policy self = Some dp"
    by (auto simp: sample_action_def split: option.splits)
  from ret sel per ob x dp have fin:
    "reshape_2d (dp ob x) (diffusion_act_chunk self * diffusion_act_dim self) = Inr action"
    "action = buffer_action"
    by (auto simp: sample_action_def Let_def split: sum.splits)
  have shape: "di = unscale_action E scaled
      \<and> (case action_noise of
            None \<Rightarrow> scaled = scale_action E unscaled
          | Some noise \<Rightarrow> np_clip_add (scale_action E unscaled) (fst (noise r1)) (- 1) 1 = Inr scaled)"
    using per box by (auto simp: perturb_action_def split: option.splits sum.splits prod.splits)
  show ?thesis using sel per ob x dp fin shape by blast
qed

theorem sample_action_pair_witness:
  "action_space_is_box example_externals
   \<and> sample_action example_externals (example_model\<lparr>last_obs := Some ()\<rparr>) 100
        (Some (\<lambda>r. ([[1]], r))) 1 = Inr (([[1]], [[1]]), ())
   \<and> np_clip_add (scale_action example_externals [[1 / 2]]) [[1]] (- 1) 1 = Inr [[1]]
   \<and> reshape_3d (unscale_action example_externals [[1]]) 1 1 = Inr [[[1]]]
   \<and> reshape_2d [[[1]]] (1 * 1) = Inr [[1]]"
proof -
  have box: "action_space_is_box example_externals" by (simp add: example_defs)
  note th = sample_action_pair[OF box example_sample]
  have "np_clip_add (scale_action example_externals [[1 / 2]]) [[1]] (- 1) 1 = Inr [[1]]"
       "reshape_3d (unscale_action example_externals [[1]]) 1 1 = Inr [[[1]]]"
       "reshape_2d [[[1]]] (1 * 1) = Inr [[1]]"
    by (simp_all add: sample_defs example_defs tensor_defs)
  then show ?thesis using box example_sample th by simp
qed


section \<open>What each phase of a gradient step changes\<close>

lemma frame_refl: "frame s s" by (simp add: frame_def)
lemma frame_trans: "frame a b \<Longrightarrow> frame b c \<Longrightarrow> frame a c" by (simp add: frame_def)

lemma entropy_coefficient_value:
  "entropy_coefficient s lp = Inr (v, l) \<Longrightarrow> coef_of s = Some v"
  by (auto simp: entropy_coefficient_def coef_of_def split: option.splits pyval.splits sum.splits)

lemma entropy_coefficient_loss:
  "entropy_coefficient s lp = Inr (v, Some l) \<Longrightarrow>
     (\<exists>opt x te. ent_coef_optimizer s = Some opt \<and> log_ent_coef s = Some x \<and> target_entropy s = PFloat te)"
  by (auto simp: entropy_coefficient_def split: option.splits pyval.splits sum.splits)

lemma entropy_phase_Inr:
  assumes "entropy_phase E g s ms lp = Inr (s', ms', v)"
  shows "frame s s' \<and> coef_of s = Some v \<and> ent_coefs ms' = ent_coefs ms @ [v]
       \<and> (trace s' = trace s \<or> trace s' = trace s @ [EntCoefStep g])
       \<and> actor_losses ms' = actor_losses ms \<and> critic_losses ms' = critic_losses ms"
proof (cases "entropy_coefficient s lp")
  case (Inl e)
  then show ?thesis using assms by (simp add: entropy_phase_def)
next
  case (Inr p)
  obtain v0 l where p: "p = (v0, l)" by (cases p)
  show ?thesis
  proof (cases l)
    case None
    then show ?thesis using assms Inr p entropy_coefficient_value[of s lp v0 l]
      by (auto simp: entropy_phase_def frame_refl)
  next
    case (Some t)
    from entropy_coefficient_loss[of s lp v0 t] Inr p Some
    obtain opt x te where f: "ent_coef_optimizer s = Some opt" "log_ent_coef s = Some x" "target_entropy s = PFloat te"
      by auto
    show ?thesis using assms Inr p Some f entropy_coefficient_value[of s lp v0 l]
      by (auto simp: entropy_phase_def frame_def Let_def split: sum.splits prod.splits)
  qed
qed

lemma entropy_phase_Inl:
  "entropy_phase E g s ms lp = Inl (e, s') \<Longrightarrow> s' = s"
  by (auto simp: entropy_phase_def Let_def split: sum.splits prod.splits option.splits pyval.splits)

lemma critic_phase_Inr:
  "critic_phase E g s ms replay v = Inr (s', ms') \<Longrightarrow>
     frame s s' \<and> trace s' = trace s @ [CriticStep g] \<and> ent_coefs ms' = ent_coefs ms"
  by (auto simp: critic_phase_def Let_def frame_def split: sum.splits prod.splits)

lemma critic_phase_Inl:
  "critic_phase E g s ms replay v = Inl (e, s') \<Longrightarrow> frame s s' \<and> trace s' = trace s"
  by (auto simp: critic_phase_def Let_def frame_def split: sum.splits prod.splits)

lemma actor_phase_Inr:
  "actor_phase E g s ms replay ap lp v = Inr (s', ms') \<Longrightarrow>
     frame s s' \<and> trace s' = trace s @ [ActorStep g] \<and> ent_coefs ms' = ent_coefs ms"
  by (auto simp: actor_phase_def Let_def frame_def split: sum.splits prod.splits)

lemma actor_phase_Inl:
  "actor_phase E g s ms replay ap lp v = Inl (e, s') \<Longrightarrow> s' = s"
  by (auto simp: actor_phase_def Let_def split: sum.splits prod.splits)

lemma target_phase_Inr:
  "target_phase g s = Inr s' \<Longrightarrow>
     frame s s' \<and> (trace s' = trace s \<or> trace s' = trace s @ [TargetSync g])"
  by (auto simp: target_phase_def update_target_networks_def frame_def split: if_splits)

lemma target_phase_Inl:
  "target_phase g s = Inl (e, s') \<Longrightarrow> s' = s"
  by (auto simp: target_phase_def split: if_splits)


lemma sample_and_act_frame:
  "sample_and_act E B s = (s3, replay, ap, lp) \<Longrightarrow>
     frame s s3 \<and> trace s3 = trace s \<and> coef_of s3 = coef_of s"
  by (auto simp: sample_and_act_def Let_def frame_def coef_of_def
           split: prod.splits if_splits option.splits)

lemma gradient_step_Inr:
  assumes "gradient_step E idx B (s, ms) g = Inr (s', ms')"
  shows "frame s s'
       \<and> (\<exists>v. coef_of s = Some v \<and> ent_coefs ms' = ent_coefs ms @ [v])
       \<and> (\<exists>a t. trace s' = trace s @ step_events a g (np_in g idx) t)"
proof -
  obtain s3 replay ap lp where sa: "sample_and_act E B s = (s3, replay, ap, lp)"
    by (cases "sample_and_act E B s") auto
  note f3 = sample_and_act_frame[OF sa]
  from assms sa obtain s4 ms1 v where e: "entropy_phase E g s3 ms lp = Inr (s4, ms1, v)"
    by (auto simp: gradient_step_def split: sum.splits)
  note f4 = entropy_phase_Inr[OF e]
  from assms sa e obtain s5 ms2 where c: "critic_phase E g s4 ms1 replay v = Inr (s5, ms2)"
    by (auto simp: gradient_step_def split: sum.splits)
  note f5 = critic_phase_Inr[OF c]
  from assms sa e c obtain s6 ms3 where
    a: "(if np_in g idx then actor_phase E g s5 ms2 replay ap lp v else Inr (s5, ms2)) = Inr (s6, ms3)"
    by (auto simp: gradient_step_def split: sum.splits)
  have f6: "frame s5 s6 \<and> trace s6 = trace s5 @ (if np_in g idx then [ActorStep g] else [])
            \<and> ent_coefs ms3 = ent_coefs ms2"
    using a actor_phase_Inr[of E g s5 ms2 replay ap lp v s6 ms3]
    by (cases "np_in g idx") (auto simp: frame_refl)
  from assms sa e c a have t: "target_phase g s6 = Inr s'" and m: "ms' = ms3"
    by (auto simp: gradient_step_def split: sum.splits)
  note f7 = target_phase_Inr[OF t]
  have fr: "frame s s'"
    using f3 f4 f5 f6 f7 by (blast intro: frame_trans)
  have co: "\<exists>v. coef_of s = Some v \<and> ent_coefs ms' = ent_coefs ms @ [v]"
    using f3 f4 f5 f6 m by auto
  have "\<exists>a t. trace s' = trace s @ step_events a g (np_in g idx) t"
  proof -
    from f4 have "trace s4 = trace s3 @ (if False then [EntCoefStep g] else [])
        \<or> trace s4 = trace s3 @ (if True then [EntCoefStep g] else [])" by simp
    then obtain a where a: "trace s4 = trace s3 @ (if a then [EntCoefStep g] else [])"
      by blast
    from f7 have "trace s' = trace s6 @ (if False then [TargetSync g] else [])
        \<or> trace s' = trace s6 @ (if True then [TargetSync g] else [])" by simp
    then obtain t where t: "trace s' = trace s6 @ (if t then [TargetSync g] else [])"
      by blast
    have "trace s' = trace s @ step_events a g (np_in g idx) t"
      using a t f3 f5 f6 by (simp add: step_events_def)
    then show ?thesis by blast
  qed
  with fr co show ?thesis by blast
qed

lemma gradient_step_Inl:
  assumes "gradient_step E idx B (s, ms) g = Inl (e, s')"
  shows "frame s s'
       \<and> (\<exists>pre. trace s' = trace s @ pre \<and> set pre \<subseteq> {EntCoefStep g, CriticStep g, ActorStep g})"
proof -
  obtain s3 replay ap lp where sa: "sample_and_act E B s = (s3, replay, ap, lp)"
    by (cases "sample_and_act E B s") auto
  note f3 = sample_and_act_frame[OF sa]
  show ?thesis
  proof (cases "entropy_phase E g s3 ms lp")
    case (Inl err)
    then have "s' = s3" using assms sa entropy_phase_Inl[of E g s3 ms lp e s']
      by (auto simp: gradient_step_def)
    then show ?thesis using f3 by auto
  next
    case (Inr r)
    obtain s4 ms1 v where r: "r = (s4, ms1, v)" by (cases r)
    note f4 = entropy_phase_Inr[OF Inr[unfolded r]]
    have t4: "\<exists>p. trace s4 = trace s @ p \<and> set p \<subseteq> {EntCoefStep g}"
      using f3 f4 by auto
    show ?thesis
    proof (cases "critic_phase E g s4 ms1 replay v")
      case (Inl err)
      then have "critic_phase E g s4 ms1 replay v = Inl (e, s')"
        using assms sa Inr r by (auto simp: gradient_step_def)
      from critic_phase_Inl[OF this] show ?thesis
        using f3 f4 t4 by (auto intro: frame_trans)
    next
      case c: (Inr r2)
      obtain s5 ms2 where r2: "r2 = (s5, ms2)" by (cases r2)
      note f5 = critic_phase_Inr[OF c[unfolded r2]]
      have t5: "\<exists>p. trace s5 = trace s @ p \<and> set p \<subseteq> {EntCoefStep g, CriticStep g}"
        using t4 f5 by auto
      have fr5: "frame s s5" using f3 f4 f5 by (blast intro: frame_trans)
      show ?thesis
      proof (cases "if np_in g idx then actor_phase E g s5 ms2 replay ap lp v else Inr (s5, ms2)")
        case (Inl err)
        then have "np_in g idx" "actor_phase E g s5 ms2 replay ap lp v = Inl (e, s')"
          using assms sa Inr r c r2 by (auto simp: gradient_step_def split: if_splits)
        from actor_phase_Inl[OF this(2)] show ?thesis using fr5 t5 by auto
      next
        case a: (Inr r3)
        obtain s6 ms3 where r3: "r3 = (s6, ms3)" by (cases r3)
        have f6: "frame s5 s6 \<and> trace s6 = trace s5 @ (if np_in g idx then [ActorStep g] else [])"
          using a r3 actor_phase_Inr[of E g s5 ms2 replay ap lp v s6 ms3]
          by (cases "np_in g idx") (auto simp: frame_refl)
        have "target_phase g s6 = Inl (e, s')"
          using assms sa Inr r c r2 a r3 by (auto simp: gradient_step_def split: sum.splits)
        from target_phase_Inl[OF this] have "s' = s6" .
        then show ?thesis using fr5 t5 f6 by (auto intro: frame_trans)
      qed
    qed
  qed
qed


section \<open>The trace of the loop over the gradient steps\<close>

lemma sync_after_critic_Nil: "sync_after_critic []"
  by (simp add: sync_after_critic_def)

lemma sync_after_critic_append:
  assumes "sync_after_critic xs" "sync_after_critic ys"
  shows "sync_after_critic (xs @ ys)"
  unfolding sync_after_critic_def
proof (intro allI impI)
  fix i g assume a: "i < length (xs @ ys) \<and> (xs @ ys) ! i = TargetSync g"
  show "\<exists>j<i. (xs @ ys) ! j = CriticStep g"
  proof (cases "i < length xs")
    case True
    then have "xs ! i = TargetSync g" using a by (simp add: nth_append)
    with assms(1) True obtain j where "j < i" "xs ! j = CriticStep g"
      unfolding sync_after_critic_def by blast
    then show ?thesis using True by (intro exI[of _ j]) (simp add: nth_append)
  next
    case False
    then have i: "i - length xs < length ys" "ys ! (i - length xs) = TargetSync g"
      using a False by (auto simp: nth_append)
    with assms(2) obtain j where j: "j < i - length xs" "ys ! j = CriticStep g"
      unfolding sync_after_critic_def by blast
    then show ?thesis using False by (intro exI[of _ "length xs + j"]) (simp add: nth_append)
  qed
qed

lemma sync_after_critic_no_sync:
  assumes "\<And>g. TargetSync g \<notin> set p"
  shows "sync_after_critic p"
  unfolding sync_after_critic_def using assms by (metis nth_mem)

lemma sync_after_critic_step: "sync_after_critic (step_events a g act t)"
proof -
  have pre: "sync_after_critic ((if a then [EntCoefStep g] else []) @ [CriticStep g]
                                @ (if act then [ActorStep g] else []))"
    by (rule sync_after_critic_no_sync) auto
  show ?thesis
  proof (cases t)
    case False
    then show ?thesis using pre by (simp add: step_events_def)
  next
    case True
    define p where "p = (if a then [EntCoefStep g] else []) @ [CriticStep g]
                                @ (if act then [ActorStep g] else [])"
    have se: "step_events a g act t = p @ [TargetSync g]"
      using True by (simp add: step_events_def p_def)
    have "CriticStep g \<in> set p" by (simp add: p_def)
    then obtain j where j: "j < length p" "p ! j = CriticStep g" by (metis in_set_conv_nth)
    have np: "\<And>i. i < length p \<Longrightarrow> p ! i \<noteq> TargetSync g'" for g'
      by (auto simp: p_def nth_append nth_Cons' split: if_splits)
    show ?thesis unfolding se sync_after_critic_def
    proof (intro allI impI)
      fix i g' assume a: "i < length (p @ [TargetSync g]) \<and> (p @ [TargetSync g]) ! i = TargetSync g'"
      then have "i = length p \<and> g' = g" using np[of i g'] by (cases "i < length p") (auto simp: nth_append)
      then show "\<exists>j<i. (p @ [TargetSync g]) ! j = CriticStep g'"
        using j by (intro exI[of _ j]) (simp add: nth_append)
    qed
  qed
qed

lemma step_events_no_noise: "e \<in> set (step_events a g act t) \<Longrightarrow> \<not> is_noise_event e"
  by (auto simp: step_events_def is_noise_event_def split: if_splits)

lemma actor_steps_append: "actor_steps (xs @ ys) = actor_steps xs @ actor_steps ys"
  by (simp add: actor_steps_def)

lemma actor_steps_step: "actor_steps (step_events a g act t) = (if act then [g] else [])"
  by (simp add: actor_steps_def step_events_def)


lemma critic_steps_append: "critic_steps (xs @ ys) = critic_steps xs @ critic_steps ys"
  by (simp add: critic_steps_def)

lemma critic_steps_step: "critic_steps (step_events a g act t) = [g]"
  by (simp add: critic_steps_def step_events_def)

lemma gradient_loop_Inr:
  "for_each (gradient_step E idx B) (s, ms) gs = Inr (s', ms') \<Longrightarrow>
     frame s s'
     \<and> (\<exists>ev. trace s' = trace s @ ev \<and> sync_after_critic ev
             \<and> (\<forall>e\<in>set ev. \<not> is_noise_event e)
             \<and> actor_steps ev = filter (\<lambda>g. np_in g idx) gs
             \<and> critic_steps ev = gs)
     \<and> (\<exists>vs. ent_coefs ms' = ent_coefs ms @ vs \<and> length vs = length gs
             \<and> (\<forall>v\<in>set vs. \<exists>s''. frame s s'' \<and> coef_of s'' = Some v))"
proof (induction gs arbitrary: s ms)
  case Nil
  then show ?case by (simp add: frame_refl sync_after_critic_Nil actor_steps_def critic_steps_def)
next
  case (Cons g gs)
  from Cons.prems obtain s1 ms1 where
    st: "gradient_step E idx B (s, ms) g = Inr (s1, ms1)"
    and rest: "for_each (gradient_step E idx B) (s1, ms1) gs = Inr (s', ms')"
    by (auto split: sum.splits)
  from gradient_step_Inr[OF st] obtain v a t where
    f1: "frame s s1" and v: "coef_of s = Some v" "ent_coefs ms1 = ent_coefs ms @ [v]"
    and t1: "trace s1 = trace s @ step_events a g (np_in g idx) t" by blast
  from Cons.IH[OF rest] obtain ev vs where
    f2: "frame s1 s'" and t2: "trace s' = trace s1 @ ev" "sync_after_critic ev"
      "\<forall>e\<in>set ev. \<not> is_noise_event e" "actor_steps ev = filter (\<lambda>g. np_in g idx) gs"
      "critic_steps ev = gs"
    and vs: "ent_coefs ms' = ent_coefs ms1 @ vs" "length vs = length gs"
      "\<forall>v\<in>set vs. \<exists>s''. frame s1 s'' \<and> coef_of s'' = Some v" by blast
  have fr: "frame s s'" using f1 f2 by (rule frame_trans)
  have tr: "trace s' = trace s @ (step_events a g (np_in g idx) t @ ev)"
    using t1 t2 by simp
  have p1: "sync_after_critic (step_events a g (np_in g idx) t @ ev)"
    using sync_after_critic_step t2(2) by (rule sync_after_critic_append)
  have p2: "\<forall>e\<in>set (step_events a g (np_in g idx) t @ ev). \<not> is_noise_event e"
    using t2(3) step_events_no_noise by auto
  have p3: "actor_steps (step_events a g (np_in g idx) t @ ev) = filter (\<lambda>g. np_in g idx) (g # gs)"
    using t2(4) by (simp add: actor_steps_append actor_steps_step)
  have p4: "critic_steps (step_events a g (np_in g idx) t @ ev) = g # gs"
    using t2(5) by (simp add: critic_steps_append critic_steps_step)
  have c1: "ent_coefs ms' = ent_coefs ms @ (v # vs)" using v vs by simp
  have c2: "length (v # vs) = length (g # gs)" using vs by simp
  have c3: "\<forall>v'\<in>set (v # vs). \<exists>s''. frame s s'' \<and> coef_of s'' = Some v'"
    using v(1) vs(3) f1 frame_refl[of s] by (auto intro: frame_trans)
  show ?case using fr tr p1 p2 p3 p4 c1 c2 c3 by blast
qed

lemma gradient_loop_Inl:
  "for_each (gradient_step E idx B) (s, ms) gs = Inl (e, s') \<Longrightarrow>
     frame s s'
     \<and> (\<exists>ev. trace s' = trace s @ ev \<and> sync_after_critic ev
             \<and> (\<forall>e\<in>set ev. \<not> is_noise_event e))"
proof (induction gs arbitrary: s ms)
  case Nil
  then show ?case by simp
next
  case (Cons g gs)
  show ?case
  proof (cases "gradient_step E idx B (s, ms) g")
    case (Inl err)
    then have "gradient_step E idx B (s, ms) g = Inl (e, s')" using Cons.prems by simp
    from gradient_step_Inl[OF this] obtain pre where
      f: "frame s s'" and p: "trace s' = trace s @ pre"
         "set pre \<subseteq> {EntCoefStep g, CriticStep g, ActorStep g}" by blast
    have "sync_after_critic pre" using p(2) by (intro sync_after_critic_no_sync) auto
    moreover have "\<forall>e\<in>set pre. \<not> is_noise_event e"
      using p(2) by (auto simp: is_noise_event_def)
    ultimately show ?thesis using f p(1) by blast
  next
    case (Inr r)
    obtain s1 ms1 where r: "r = (s1, ms1)" by (cases r)
    from gradient_step_Inr[OF Inr[unfolded r]] obtain a t where
      f1: "frame s s1" and t1: "trace s1 = trace s @ step_events a g (np_in g idx) t" by blast
    have "for_each (gradient_step E idx B) (s1, ms1) gs = Inl (e, s')"
      using Cons.prems Inr r by simp
    from Cons.IH[OF this] obtain ev where
      f2: "frame s1 s'" and t2: "trace s' = trace s1 @ ev" "sync_after_critic ev"
        "\<forall>e\<in>set ev. \<not> is_noise_event e" by blast
    have "trace s' = trace s @ (step_events a g (np_in g idx) t @ ev)" using t1 t2 by simp
    moreover have "sync_after_critic (step_events a g (np_in g idx) t @ ev)"
      using sync_after_critic_step t2(2) by (rule sync_after_critic_append)
    moreover have "\<forall>e\<in>set (step_events a g (np_in g idx) t @ ev). \<not> is_noise_event e"
      using t2(3) step_events_no_noise by auto
    ultimately show ?thesis using frame_trans[OF f1 f2] by blast
  qed
qed



section \<open>The distillation loop, and the start and the end of \<^verbatim>\<open>train\<close>\<close>

lemma noise_critic_step_Inr:
  "noise_critic_step E B (s, ms) j = Inr (s', ms') \<Longrightarrow>
     frame s s' \<and> trace s' = trace s @ [NoiseCriticStep j]
     \<and> ent_coefs ms' = ent_coefs ms \<and> ent_coef_losses ms' = ent_coef_losses ms"
  by (auto simp: noise_critic_step_def Let_def frame_def split: prod.splits sum.splits option.splits)

lemma noise_critic_step_Inl:
  "noise_critic_step E B (s, ms) j = Inl (e, s') \<Longrightarrow> frame s s' \<and> trace s' = trace s"
  by (auto simp: noise_critic_step_def Let_def frame_def split: prod.splits sum.splits option.splits)

lemma noise_loop_Inr:
  "for_each (noise_critic_step E B) (s, ms) js = Inr (s', ms') \<Longrightarrow>
     frame s s' \<and> trace s' = trace s @ map NoiseCriticStep js
     \<and> ent_coefs ms' = ent_coefs ms \<and> ent_coef_losses ms' = ent_coef_losses ms"
proof (induction js arbitrary: s ms)
  case Nil
  then show ?case by (simp add: frame_refl)
next
  case (Cons j js)
  from Cons.prems obtain s1 ms1 where
    st: "noise_critic_step E B (s, ms) j = Inr (s1, ms1)"
    and rest: "for_each (noise_critic_step E B) (s1, ms1) js = Inr (s', ms')"
    by (auto split: sum.splits)
  from noise_critic_step_Inr[OF st] Cons.IH[OF rest] show ?case
    by (auto intro: frame_trans)
qed

lemma noise_loop_Inl:
  "for_each (noise_critic_step E B) (s, ms) js = Inl (e, s') \<Longrightarrow>
     frame s s' \<and> (\<exists>k. trace s' = trace s @ map NoiseCriticStep (take k js))"
proof (induction js arbitrary: s ms)
  case Nil
  then show ?case by simp
next
  case (Cons j js)
  show ?case
  proof (cases "noise_critic_step E B (s, ms) j")
    case (Inl err)
    then have "noise_critic_step E B (s, ms) j = Inl (e, s')" using Cons.prems by simp
    from noise_critic_step_Inl[OF this] show ?thesis by (auto intro: exI[of _ 0])
  next
    case (Inr r)
    obtain s1 ms1 where r: "r = (s1, ms1)" by (cases r)
    note f1 = noise_critic_step_Inr[OF Inr[unfolded r]]
    have "for_each (noise_critic_step E B) (s1, ms1) js = Inl (e, s')"
      using Cons.prems Inr r by simp
    from Cons.IH[OF this] obtain k where
      f2: "frame s1 s'" and t2: "trace s' = trace s1 @ map NoiseCriticStep (take k js)" by blast
    have "trace s' = trace s @ map NoiseCriticStep (take (Suc k) (j # js))"
      using f1 t2 by simp
    then show ?thesis using f1 f2 by (blast intro: frame_trans)
  qed
qed

lemma start_training_frame:
  "frame s (start_training E s) \<and> trace (start_training E s) = trace s
   \<and> coef_of (start_training E s) = coef_of s
   \<and> ent_coef_optimizer (start_training E s) = map_option (update_learning_rate E) (ent_coef_optimizer s)
   \<and> log_ent_coef (start_training E s) = log_ent_coef s"
  by (auto simp: start_training_def frame_def coef_of_def split: prod.splits option.splits)

lemma finish_training_fields:
  "n_updates (finish_training s ms G) = n_updates s + G
   \<and> trace (finish_training s ms G) = trace s
   \<and> logger (finish_training s ms G) ! (length (logger s) + 1) = (''train/ent_coef'', np_mean (ent_coefs ms))
   \<and> length (logger (finish_training s ms G)) \<ge> length (logger s) + 5
   \<and> log_ent_coef (finish_training s ms G) = log_ent_coef s
   \<and> ent_coef_optimizer (finish_training s ms G) = ent_coef_optimizer s
   \<and> ent_coef_tensor (finish_training s ms G) = ent_coef_tensor s"
  by (simp add: finish_training_def nth_append)



section \<open>The outcome of a training call\<close>

lemma noise_events: "e \<in> set (map NoiseCriticStep js) \<Longrightarrow> is_noise_event e"
  by (auto simp: is_noise_event_def)

lemma train_Inr:
  assumes "train E s G B = Inr s'"
  shows "\<exists>idx ev vs.
           actor_gradient_idx G (actor_gradient_steps s) = Inr idx
         \<and> n_updates s' = n_updates s + G
         \<and> trace s' = trace s @ ev @ map NoiseCriticStep (py_range (noise_critic_grad_steps s))
         \<and> sync_after_critic ev \<and> (\<forall>e\<in>set ev. \<not> is_noise_event e)
         \<and> actor_steps ev = actor_update_steps G idx
         \<and> critic_steps ev = py_range G
         \<and> length vs = nat G
         \<and> (\<forall>v\<in>set vs. \<exists>s''. frame s s'' \<and> coef_of s'' = Some v)
         \<and> logger s' ! (length (logger s) + 1) = (''train/ent_coef'', np_mean vs)
         \<and> length (logger s) + 5 \<le> length (logger s')
         \<and> (log_ent_coef s' = None) = (log_ent_coef s = None)
         \<and> (ent_coef_optimizer s' = None) = (ent_coef_optimizer s = None)
         \<and> ent_coef_tensor s' = ent_coef_tensor s"
proof -
  define s1 where "s1 = start_training E s"
  note f0 = start_training_frame[of s E, folded s1_def]
  have K: "actor_gradient_steps s1 = actor_gradient_steps s" using f0 by (simp add: frame_def)
  from assms obtain idx where idx: "actor_gradient_idx G (actor_gradient_steps s) = Inr idx"
    by (auto simp: train_def Let_def s1_def[symmetric] K split: sum.splits)
  from assms idx obtain s2 ms2 where
    l1: "for_each (gradient_step E idx B) (s1, empty_metrics) (py_range G) = Inr (s2, ms2)"
    by (auto simp: train_def Let_def s1_def[symmetric] K run_gradient_steps_def split: sum.splits)
  from assms idx l1 obtain s3 ms3 where
    l2: "for_each (noise_critic_step E B) (s2, ms2) (py_range (noise_critic_grad_steps s2)) = Inr (s3, ms3)"
    and fin: "s' = finish_training s3 ms3 G"
    by (auto simp: train_def Let_def s1_def[symmetric] K run_gradient_steps_def
                   run_noise_critic_steps_def split: sum.splits)
  from gradient_loop_Inr[OF l1] obtain ev vs where
    f1: "frame s1 s2" and t1: "trace s2 = trace s1 @ ev" "sync_after_critic ev"
      "\<forall>e\<in>set ev. \<not> is_noise_event e" "actor_steps ev = filter (\<lambda>g. np_in g idx) (py_range G)"
      "critic_steps ev = py_range G"
    and vs: "ent_coefs ms2 = ent_coefs empty_metrics @ vs" "length vs = length (py_range G)"
      "\<forall>v\<in>set vs. \<exists>s''. frame s1 s'' \<and> coef_of s'' = Some v" by blast
  note f2 = noise_loop_Inr[OF l2]
  note f3 = finish_training_fields[of s3 ms3 G, folded fin]
  have fr: "frame s s3" using f0 f1 f2 by (blast intro: frame_trans)
  have N: "noise_critic_grad_steps s2 = noise_critic_grad_steps s"
    using f0 f1 by (simp add: frame_def)
  have a: "n_updates s' = n_updates s + G" using f3 fr by (simp add: frame_def)
  have b: "trace s' = trace s @ ev @ map NoiseCriticStep (py_range (noise_critic_grad_steps s))"
    using f0 t1(1) f2 f3 N by simp
  have c: "actor_steps ev = actor_update_steps G idx" using t1(4) by (simp add: actor_update_steps_def)
  have d: "length vs = nat G" using vs(2) by (simp add: py_range_def)
  have e: "\<forall>v\<in>set vs. \<exists>s''. frame s s'' \<and> coef_of s'' = Some v"
    using vs(3) f0 by (blast intro: frame_trans)
  have f: "logger s' ! (length (logger s) + 1) = (''train/ent_coef'', np_mean vs)"
    "length (logger s) + 5 \<le> length (logger s')"
    using f3 f2 vs(1) fr by (simp_all add: frame_def empty_metrics_def)
  have g: "(log_ent_coef s' = None) = (log_ent_coef s = None)"
    "(ent_coef_optimizer s' = None) = (ent_coef_optimizer s = None)"
    "ent_coef_tensor s' = ent_coef_tensor s"
    using f3 fr by (simp_all add: frame_def)
  show ?thesis
    by (intro exI[of _ idx] exI[of _ ev] exI[of _ vs] conjI)
       (fact idx a b t1(2,3,5) c d e f g)+
qed

lemma train_Inl:
  assumes "train E s G B = Inl (e, s')"
  shows "n_updates s' = n_updates s
       \<and> (\<exists>ev k. trace s' = trace s @ ev
                     @ map NoiseCriticStep (take k (py_range (noise_critic_grad_steps s)))
             \<and> sync_after_critic ev \<and> (\<forall>e\<in>set ev. \<not> is_noise_event e)
             \<and> (0 < k \<longrightarrow> critic_steps ev = py_range G))"
proof -
  define s1 where "s1 = start_training E s"
  note f0 = start_training_frame[of s E, folded s1_def]
  have K: "actor_gradient_steps s1 = actor_gradient_steps s" using f0 by (simp add: frame_def)
  show ?thesis
  proof (cases "actor_gradient_idx G (actor_gradient_steps s)")
    case (Inl err)
    then have "s' = s1" using assms by (simp add: train_def Let_def s1_def[symmetric] K)
    then have "n_updates s' = n_updates s" "trace s' = trace s @ [] @ map NoiseCriticStep (take 0 (py_range (noise_critic_grad_steps s)))"
      using f0 by (simp_all add: frame_def)
    then show ?thesis using sync_after_critic_Nil by (intro conjI exI[of _ "[]"] exI[of _ 0]) auto
  next
    case (Inr idx)
    show ?thesis
    proof (cases "for_each (gradient_step E idx B) (s1, empty_metrics) (py_range G)")
      case (Inl err)
      then have "for_each (gradient_step E idx B) (s1, empty_metrics) (py_range G) = Inl (e, s')"
        using assms Inr by (simp add: train_def Let_def s1_def[symmetric] K run_gradient_steps_def)
      from gradient_loop_Inl[OF this] obtain ev where
        f1: "frame s1 s'" and t1: "trace s' = trace s1 @ ev" "sync_after_critic ev"
          "\<forall>e\<in>set ev. \<not> is_noise_event e" by blast
      have "n_updates s' = n_updates s" using f0 f1 by (simp add: frame_def)
      moreover have "trace s' = trace s @ ev @ map NoiseCriticStep (take 0 (py_range (noise_critic_grad_steps s)))"
        using f0 t1 by simp
      ultimately show ?thesis using t1(2,3) by (intro conjI exI[of _ ev] exI[of _ 0]) auto
    next
      case l1: (Inr r)
      obtain s2 ms2 where r: "r = (s2, ms2)" by (cases r)
      from gradient_loop_Inr[OF l1[unfolded r]] obtain ev where
        f1: "frame s1 s2" and t1: "trace s2 = trace s1 @ ev" "sync_after_critic ev"
          "\<forall>e\<in>set ev. \<not> is_noise_event e" "critic_steps ev = py_range G" by blast
      have N: "noise_critic_grad_steps s2 = noise_critic_grad_steps s"
        using f0 f1 by (simp add: frame_def)
      have "for_each (noise_critic_step E B) (s2, ms2) (py_range (noise_critic_grad_steps s2)) = Inl (e, s')"
        using assms Inr l1 r
        by (auto simp: train_def Let_def s1_def[symmetric] K run_gradient_steps_def
                       run_noise_critic_steps_def split: sum.splits)
      from noise_loop_Inl[OF this] obtain k where
        f2: "frame s2 s'" and t2: "trace s' = trace s2 @ map NoiseCriticStep (take k (py_range (noise_critic_grad_steps s2)))"
        by blast
      have "n_updates s' = n_updates s" using f0 f1 f2 by (simp add: frame_def)
      moreover have "trace s' = trace s @ ev @ map NoiseCriticStep (take k (py_range (noise_critic_grad_steps s)))"
        using f0 t1(1) t2 N by simp
      ultimately show ?thesis using t1(2,3,4) by (intro conjI exI[of _ ev] exI[of _ k]) auto
    qed
  qed
qed



section \<open>The update counter and the order of the phases\<close>

lemma example_train:
  "\<exists>s'. train example_externals
          (example_model\<lparr>noise_critic_grad_steps := 3, actor_gradient_steps := 1\<rparr>) 2 1 = Inr s'
      \<and> n_updates s' = 2
      \<and> trace s' = [EntCoefStep 0, CriticStep 0, TargetSync 0,
                     EntCoefStep 1, CriticStep 1, ActorStep 1, TargetSync 1,
                     NoiseCriticStep 0, NoiseCriticStep 1, NoiseCriticStep 2]
      \<and> logger s' ! 1 = (''train/ent_coef'', (1 + exp (- 1)) / 2)"
  by (simp add: example_defs train_defs tensor_defs upt_conv_Cons)

lemma filter_noise_phases:
  assumes "\<forall>e\<in>set ev. \<not> is_noise_event e"
  shows "filter is_noise_event (ev @ map NoiseCriticStep js) = map NoiseCriticStep js"
proof -
  have "filter is_noise_event ev = []" using assms by (simp add: filter_empty_conv)
  moreover have "filter is_noise_event (map NoiseCriticStep js) = map NoiseCriticStep js"
    by (simp add: filter_id_conv is_noise_event_def)
  ultimately show ?thesis by simp
qed

text \<open>
  C10. A call of \<^verbatim>\<open>train\<close> with \<open>G\<close> gradient steps that returns has added exactly \<open>G\<close>
  to \<^verbatim>\<open>_n_updates\<close>, whatever \<^verbatim>\<open>noise_critic_grad_steps\<close> and the number of actor
  updates are: the trace of the call has \<^verbatim>\<open>noise_critic_grad_steps\<close> distillation steps
  and \<open>G\<close> critic steps, and none of the distillation or actor steps is counted. A call
  that raises leaves the counter as it was.
\<close>

theorem train_counts_gradient_steps:
  "(train E s G B = Inr s' \<longrightarrow>
      n_updates s' = n_updates s + G
      \<and> (\<exists>ev. trace s' = trace s @ ev
             \<and> length (filter is_noise_event ev) = nat (noise_critic_grad_steps s)
             \<and> length (critic_steps ev) = nat G))
   \<and> (train E s G B = Inl (e, s'') \<longrightarrow> n_updates s'' = n_updates s)"
proof (intro conjI impI)
  assume a: "train E s G B = Inr s'"
  from train_Inr[OF a] obtain ev where
    n: "n_updates s' = n_updates s + G"
    and t: "trace s' = trace s @ ev @ map NoiseCriticStep (py_range (noise_critic_grad_steps s))"
    and nn: "\<forall>e\<in>set ev. \<not> is_noise_event e" and cs: "critic_steps ev = py_range G" by blast
  show "n_updates s' = n_updates s + G" by (rule n)
  have "critic_steps (ev @ map NoiseCriticStep (py_range (noise_critic_grad_steps s))) = py_range G"
    using cs by (simp add: critic_steps_def)
  then have "length (critic_steps (ev @ map NoiseCriticStep (py_range (noise_critic_grad_steps s)))) = nat G"
    by (simp add: py_range_def)
  moreover have "length (filter is_noise_event (ev @ map NoiseCriticStep (py_range (noise_critic_grad_steps s))))
      = nat (noise_critic_grad_steps s)"
  proof -
    have "length (map NoiseCriticStep (py_range (noise_critic_grad_steps s)))
        = nat (noise_critic_grad_steps s)" by (simp add: py_range_def)
    then show ?thesis by (simp only: filter_noise_phases[OF nn])
  qed
  ultimately show "\<exists>ev. trace s' = trace s @ ev
             \<and> length (filter is_noise_event ev) = nat (noise_critic_grad_steps s)
             \<and> length (critic_steps ev) = nat G"
    using t by blast
next
  assume "train E s G B = Inl (e, s'')"
  from train_Inl[OF this] show "n_updates s'' = n_updates s" by blast
qed

theorem train_counts_gradient_steps_witness:
  "\<exists>s'. train example_externals
          (example_model\<lparr>noise_critic_grad_steps := 3, actor_gradient_steps := 1\<rparr>) 2 1 = Inr s'
      \<and> n_updates s' = n_updates (example_model\<lparr>noise_critic_grad_steps := 3, actor_gradient_steps := 1\<rparr>) + 2
      \<and> length (filter is_noise_event (trace s')) = 3
      \<and> length (actor_steps (trace s')) = 1"
proof -
  from example_train obtain s' where
    t: "train example_externals
          (example_model\<lparr>noise_critic_grad_steps := 3, actor_gradient_steps := 1\<rparr>) 2 1 = Inr s'"
    and tr: "trace s' = [EntCoefStep 0, CriticStep 0, TargetSync 0,
                     EntCoefStep 1, CriticStep 1, ActorStep 1, TargetSync 1,
                     NoiseCriticStep 0, NoiseCriticStep 1, NoiseCriticStep 2]"
    by blast
  from train_counts_gradient_steps[of example_externals _ 2 1 s'] t
  have "n_updates s' = n_updates (example_model\<lparr>noise_critic_grad_steps := 3, actor_gradient_steps := 1\<rparr>) + 2"
    by blast
  moreover have "length (filter is_noise_event (trace s')) = 3" "length (actor_steps (trace s')) = 1"
    using tr by (simp_all add: is_noise_event_def actor_steps_def)
  ultimately show ?thesis using t by blast
qed

text \<open>
  C8. In the events of one training call, whether it returns or raises: a target
  synchronisation of step \<open>g\<close> comes after the critic's optimizer step of step \<open>g\<close>;
  the events split into those of the gradient steps followed by the distillation steps,
  with no distillation step among the former; and when there is a distillation step at
  all, the critic steps before it are those of all the steps \<open>0, ..., G - 1\<close>.
\<close>

theorem train_phase_order:
  assumes "train E s G B = Inr s' \<or> train E s G B = Inl (e, s')"
  shows "\<exists>ev nz. trace s' = trace s @ ev @ nz
           \<and> sync_after_critic (ev @ nz)
           \<and> (\<forall>x\<in>set ev. \<not> is_noise_event x) \<and> (\<forall>x\<in>set nz. is_noise_event x)
           \<and> (nz \<noteq> [] \<longrightarrow> critic_steps ev = py_range G)
           \<and> (train E s G B = Inr s' \<longrightarrow>
                 nz = map NoiseCriticStep (py_range (noise_critic_grad_steps s))
                 \<and> critic_steps ev = py_range G)"
proof -
  have nosync: "sync_after_critic (map NoiseCriticStep js)" for js
    by (rule sync_after_critic_no_sync) auto
  from assms show ?thesis
  proof
    assume a: "train E s G B = Inr s'"
    from train_Inr[OF a] obtain ev where
      t: "trace s' = trace s @ ev @ map NoiseCriticStep (py_range (noise_critic_grad_steps s))"
      and sy: "sync_after_critic ev" and nn: "\<forall>e\<in>set ev. \<not> is_noise_event e"
      and cs: "critic_steps ev = py_range G" by blast
    have "sync_after_critic (ev @ map NoiseCriticStep (py_range (noise_critic_grad_steps s)))"
      using sy nosync by (rule sync_after_critic_append)
    then show ?thesis using t nn cs noise_events
      by (intro exI[of _ ev] exI[of _ "map NoiseCriticStep (py_range (noise_critic_grad_steps s))"]) blast
  next
    assume a: "train E s G B = Inl (e, s')"
    then have ne: "train E s G B \<noteq> Inr s'" by simp
    from train_Inl[OF a] obtain ev k where
      t: "trace s' = trace s @ ev @ map NoiseCriticStep (take k (py_range (noise_critic_grad_steps s)))"
      and sy: "sync_after_critic ev" and nn: "\<forall>e\<in>set ev. \<not> is_noise_event e"
      and cs: "0 < k \<longrightarrow> critic_steps ev = py_range G" by blast
    have "sync_after_critic (ev @ map NoiseCriticStep (take k (py_range (noise_critic_grad_steps s))))"
      using sy nosync by (rule sync_after_critic_append)
    moreover have "map NoiseCriticStep (take k (py_range (noise_critic_grad_steps s))) \<noteq> [] \<longrightarrow> 0 < k"
      by (cases k) auto
    ultimately show ?thesis using t nn cs noise_events ne
      by (intro exI[of _ ev] exI[of _ "map NoiseCriticStep (take k (py_range (noise_critic_grad_steps s)))"]) blast
  qed
qed


theorem train_phase_order_witness:
  "\<exists>s' ev nz.
      train example_externals
        (example_model\<lparr>noise_critic_grad_steps := 3, actor_gradient_steps := 1\<rparr>) 2 1 = Inr s'
    \<and> trace s' = ev @ nz
    \<and> sync_after_critic (ev @ nz)
    \<and> list_all (\<lambda>x. \<not> is_noise_event x) ev
    \<and> nz = map NoiseCriticStep (py_range 3)
    \<and> critic_steps ev = py_range 2"
proof -
  from example_train obtain s' where
    t: "train example_externals
          (example_model\<lparr>noise_critic_grad_steps := 3, actor_gradient_steps := 1\<rparr>) 2 1 = Inr s'"
    by blast
  from train_phase_order[OF disjI1[OF t]] obtain ev nz where
    "trace s' = trace (example_model\<lparr>noise_critic_grad_steps := 3, actor_gradient_steps := 1\<rparr>) @ ev @ nz"
    "sync_after_critic (ev @ nz)" "\<forall>x\<in>set ev. \<not> is_noise_event x"
    "nz = map NoiseCriticStep (py_range (noise_critic_grad_steps
            (example_model\<lparr>noise_critic_grad_steps := 3, actor_gradient_steps := 1\<rparr>)))"
    "critic_steps ev = py_range 2"
    using t by blast
  then have "trace s' = ev @ nz" "sync_after_critic (ev @ nz)"
    "list_all (\<lambda>x. \<not> is_noise_event x) ev" "nz = map NoiseCriticStep (py_range 3)"
    "critic_steps ev = py_range 2"
    by (simp_all add: example_model_def list_all_iff)
  with t show ?thesis by blast
qed


section \<open>The steps at which the actor is updated\<close>






section \<open>The entropy coefficient\<close>














section \<open>An unrecognized combine type\<close>

text \<open>
  C3. Nothing checks \<^verbatim>\<open>critic_backup_combine_type\<close>: with \<^verbatim>\<open>'max'\<close> the construction
  and the setup succeed. In \<^verbatim>\<open>train\<close> neither branch of lines 281--284 is taken, the
  target keeps one column per target critic, and the critic is updated against it; the
  first actor update raises \<^verbatim>\<open>UnboundLocalError\<close> at line 313. Here, with two gradient
  steps of which the second updates the actor, the first step runs entirely.
\<close>

theorem unrecognized_combine_type_runs:
  "DSRL_init example_externals
      (example_args\<lparr>arg_critic_backup_combine_type := ''max'', arg_actor_gradient_steps := 1\<rparr>)
     = Inr (Built (example_model\<lparr>critic_backup_combine_type := ''max'', actor_gradient_steps := 1\<rparr>))
   \<and> td_target ''max'' (99 / 100) 1 [[[3]], [[5]]] [- 1] (as_tensor False [[1]]) (as_tensor False [[0]])
       = Inr (as_tensor False [[124 / 25, 347 / 50]])
   \<and> isl (train example_externals
            (example_model\<lparr>critic_backup_combine_type := ''max'', actor_gradient_steps := 1\<rparr>) 2 1)
   \<and> fst (projl (train example_externals
            (example_model\<lparr>critic_backup_combine_type := ''max'', actor_gradient_steps := 1\<rparr>) 2 1))
       = UnboundLocalError
   \<and> trace (snd (projl (train example_externals
            (example_model\<lparr>critic_backup_combine_type := ''max'', actor_gradient_steps := 1\<rparr>) 2 1)))
       = [EntCoefStep 0, CriticStep 0, TargetSync 0, EntCoefStep 1, CriticStep 1]"
  by (simp add: setup_defs example_defs dsrl_fields.defs dsrl.defs train_defs tensor_defs upt_conv_Cons)



section \<open>The \<^verbatim>\<open>ent_coef\<close> string\<close>











section \<open>The critic loss\<close>















lemma td_target_no_grad:
  "td_target combine gam ec tqs nlp rews dns = Inr T \<Longrightarrow> \<not> requires_grad T"
  by (auto simp: td_target_def th_binop_def split: sum.splits if_splits)




end
